theory Spec2Isabelle
  imports Main "HOL-Library.Char_ord" "HOL-Library.List_Lexorder"
begin

section \<open>Python strings\<close>

text \<open>
  The module \<^verbatim>\<open>backend/kernel_tools/document_tools.py\<close> defines the class
  \<^verbatim>\<open>DocumentTools\<close>: two tool functions and two reflection helpers.  Strings are
  lists of characters with code points below 256.  Python orders strings by code
  point, lexicographically, which is the order on \<^typ>\<open>char list\<close> used here.
  The case conversions \<^verbatim>\<open>lower\<close> and \<^verbatim>\<open>title\<close> follow Python's on these
  characters: the letters of ASCII and of Latin-1.  Two Latin-1 letters have a title
  form beyond code point 255 (U+00B5 and U+00FF); on them \<open>title_char\<close> returns the
  letter itself.
\<close>

definition str_startswith :: "string \<Rightarrow> string \<Rightarrow> bool" where
  "str_startswith s prefix = (take (length prefix) s = prefix)"

text \<open>The operator \<^verbatim>\<open>sub in s\<close> on strings.\<close>

fun str_contains :: "string \<Rightarrow> string \<Rightarrow> bool" where
  "str_contains sub [] = (sub = [])"
| "str_contains sub (c # cs) = (str_startswith (c # cs) sub \<or> str_contains sub cs)"

text \<open>\<^verbatim>\<open>s.replace(old, new)\<close> for one-character \<^verbatim>\<open>old\<close> and \<^verbatim>\<open>new\<close>.\<close>

definition str_replace :: "char \<Rightarrow> char \<Rightarrow> string \<Rightarrow> string" where
  "str_replace old new s = map (\<lambda>c. if c = old then new else c) s"

definition is_upper :: "char \<Rightarrow> bool" where
  "is_upper c =
     ((CHR ''A'' \<le> c \<and> c \<le> CHR ''Z'') \<or> (CHR 0xC0 \<le> c \<and> c \<le> CHR 0xDE \<and> c \<noteq> CHR 0xD7))"

definition is_lower :: "char \<Rightarrow> bool" where
  "is_lower c =
     ((CHR ''a'' \<le> c \<and> c \<le> CHR ''z'') \<or> (CHR 0xE0 \<le> c \<and> c \<le> CHR 0xFE \<and> c \<noteq> CHR 0xF7))"

text \<open>
  The cased characters: the letters with an upper or a lower form, and the
  letters U+00AA, U+00B5, U+00BA, U+00DF and U+00FF.
\<close>

definition is_cased :: "char \<Rightarrow> bool" where
  "is_cased c =
     (is_upper c \<or> is_lower c \<or> c \<in> {CHR 0xAA, CHR 0xB5, CHR 0xBA, CHR 0xDF, CHR 0xFF})"

definition lower_char :: "char \<Rightarrow> char" where
  "lower_char c = (if is_upper c then char_of (of_char c + (32::nat)) else c)"

text \<open>The title form of a character; that of U+00DF is the two letters \<^verbatim>\<open>Ss\<close>.\<close>

definition title_char :: "char \<Rightarrow> string" where
  "title_char c =
     (if is_lower c then [char_of (of_char c - (32::nat))]
      else if c = CHR 0xDF then ''Ss''
      else [c])"

definition str_lower :: "string \<Rightarrow> string" where
  "str_lower s = map lower_char s"

text \<open>
  \<^verbatim>\<open>s.title()\<close>: a character is put in title form when the character before it is
  not cased, and in lower case otherwise.
\<close>

fun title_from :: "bool \<Rightarrow> string \<Rightarrow> string" where
  "title_from previous_is_cased [] = []"
| "title_from previous_is_cased (c # cs) =
     (if previous_is_cased then [lower_char c] else title_char c)
       @ title_from (is_cased c) cs"

definition str_title :: "string \<Rightarrow> string" where
  "str_title s = title_from False s"

text \<open>The characters \<^verbatim>\<open>str.strip()\<close> removes: those for which \<^verbatim>\<open>isspace\<close> holds.\<close>

definition is_space :: "char \<Rightarrow> bool" where
  "is_space c = ((of_char c :: nat) \<in> {9, 10, 11, 12, 13, 28, 29, 30, 31, 32, 133, 160})"

definition str_strip :: "string \<Rightarrow> string" where
  "str_strip s = rev (dropWhile is_space (rev (dropWhile is_space s)))"

text \<open>\<^verbatim>\<open>sep.join(xs)\<close>.\<close>

fun str_join :: "string \<Rightarrow> string list \<Rightarrow> string" where
  "str_join sep [] = []"
| "str_join sep [x] = x"
| "str_join sep (x # y # ys) = x @ sep @ str_join sep (y # ys)"

text \<open>
  A dictionary keeps its keys in insertion order; assigning to a key that is
  present replaces the value in place.
\<close>

fun dict_set :: "('k \<times> 'v) list \<Rightarrow> 'k \<Rightarrow> 'v \<Rightarrow> ('k \<times> 'v) list" where
  "dict_set [] k v = [(k, v)]"
| "dict_set ((k', v') # d) k v =
     (if k' = k then (k, v) # d else (k', v') # dict_set d k v)"

section \<open>The JSON encoder\<close>

text \<open>
  The values the module serialises are strings, lists and dictionaries with string
  keys.  \<^verbatim>\<open>json.dumps\<close> is modelled after the standard library's encoder:
  \<^verbatim>\<open>ensure_ascii\<close> selects the set of escaped characters, \<^verbatim>\<open>indent\<close> the layout.
\<close>

datatype json = JString string | JArray "json list" | JObject "(string \<times> json) list"

definition hex_digit :: "nat \<Rightarrow> char" where
  "hex_digit n = ''0123456789abcdef'' ! (n mod 16)"

definition unicode_escape :: "char \<Rightarrow> string" where
  "unicode_escape c =
     [CHR 0x5C, CHR ''u'', CHR ''0'', CHR ''0'',
      hex_digit ((of_char c :: nat) div 16), hex_digit (of_char c)]"

definition escape_char :: "bool \<Rightarrow> char \<Rightarrow> string" where
  "escape_char ensure_ascii c =
     (if c = CHR 0x22 then [CHR 0x5C, CHR 0x22]
      else if c = CHR 0x5C then [CHR 0x5C, CHR 0x5C]
      else if c = CHR 0x0A then [CHR 0x5C, CHR ''n'']
      else if c = CHR 0x0D then [CHR 0x5C, CHR ''r'']
      else if c = CHR 0x09 then [CHR 0x5C, CHR ''t'']
      else if c = CHR 0x0C then [CHR 0x5C, CHR ''f'']
      else if c = CHR 0x08 then [CHR 0x5C, CHR ''b'']
      else if (of_char c :: nat) < 32 \<or> (ensure_ascii \<and> 126 < (of_char c :: nat))
        then unicode_escape c
      else [c])"

definition encode_basestring :: "bool \<Rightarrow> string \<Rightarrow> string" where
  "encode_basestring ensure_ascii s =
     CHR 0x22 # concat (map (escape_char ensure_ascii) s) @ [CHR 0x22]"

definition newline_indent :: "nat option \<Rightarrow> nat \<Rightarrow> string" where
  "newline_indent indent level =
     (case indent of None \<Rightarrow> [] | Some n \<Rightarrow> CHR 0x0A # replicate (n * level) CHR '' '')"

definition item_separator :: "nat option \<Rightarrow> string" where
  "item_separator indent = (case indent of None \<Rightarrow> '', '' | Some n \<Rightarrow> '','')"

fun iterencode :: "bool \<Rightarrow> nat option \<Rightarrow> nat \<Rightarrow> json \<Rightarrow> string" where
  "iterencode ensure_ascii indent level (JString s) = encode_basestring ensure_ascii s"
| "iterencode ensure_ascii indent level (JArray xs) =
     (if xs = [] then ''[]''
      else ''['' @ newline_indent indent (level + 1)
        @ str_join (item_separator indent @ newline_indent indent (level + 1))
            (map (iterencode ensure_ascii indent (level + 1)) xs)
        @ newline_indent indent level @ '']'')"
| "iterencode ensure_ascii indent level (JObject kvs) =
     (if kvs = [] then ''{}''
      else ''{'' @ newline_indent indent (level + 1)
        @ str_join (item_separator indent @ newline_indent indent (level + 1))
            (map (\<lambda>(k, v). encode_basestring ensure_ascii k @ '': ''
                    @ iterencode ensure_ascii indent (level + 1) v) kvs)
        @ newline_indent indent level @ ''}'')"

text \<open>\<^verbatim>\<open>json.dumps(obj)\<close> and \<^verbatim>\<open>json.dumps(obj, ensure_ascii=False, indent=2)\<close>.\<close>

definition json_dumps :: "json \<Rightarrow> string" where
  "json_dumps obj = iterencode True None 0 obj"

definition json_dumps_indent2 :: "json \<Rightarrow> string" where
  "json_dumps_indent2 obj = iterencode False (Some 2) 0 obj"

section \<open>Objects, functions and classes\<close>

text \<open>
  What the reflection helpers read of an object: whether it is a plain function
  (\<^verbatim>\<open>inspect.isfunction\<close>), its \<^verbatim>\<open>__doc__\<close>, its \<^verbatim>\<open>__kernel_function__\<close>
  attribute when it has one, its \<^verbatim>\<open>__annotations__\<close>, the parameter names of its
  signature and what \<^verbatim>\<open>typing.get_type_hints\<close> returns for it.  Of an annotation
  the code reads \<^verbatim>\<open>__name__\<close>, when present, and
  its \<^verbatim>\<open>str\<close>, which for classes and typing constructs is also its \<^verbatim>\<open>repr\<close>.
\<close>

record py_type =
  type_name :: "string option"
  type_str :: string

record kernel_function_marker =
  kf_description :: "string option"

datatype object_type = FunctionType | MethodType | OtherType

record py_object =
  obj_type :: object_type
  dunder_doc :: "string option"
  dunder_kernel_function :: "kernel_function_marker option"
  dunder_annotations :: "(string \<times> py_type) list"
  parameters :: "string list"
  typing_hints :: "(string \<times> py_type) list"

text \<open>
  A class: the value of \<^verbatim>\<open>cls.agent_name\<close> and the attributes \<^verbatim>\<open>dir(cls)\<close>
  lists, each with the object that \<^verbatim>\<open>getattr(cls, name)\<close> returns.
\<close>

record py_class =
  agent_name :: string
  members :: "(string \<times> py_object) list"

definition isfunction :: "py_object \<Rightarrow> bool" where
  "isfunction obj = (obj_type obj = FunctionType)"

text \<open>
  \<^verbatim>\<open>inspect.getmembers(cls, predicate)\<close>: the members that satisfy the predicate,
  sorted by name.
\<close>

definition getmembers :: "py_class \<Rightarrow> (py_object \<Rightarrow> bool) \<Rightarrow> (string \<times> py_object) list" where
  "getmembers cls predicate =
     sort_key fst (filter (\<lambda>(name, obj). predicate obj) (members cls))"

definition hasattr_kernel_function :: "py_object \<Rightarrow> bool" where
  "hasattr_kernel_function method = (dunder_kernel_function method \<noteq> None)"

text \<open>
  \<^verbatim>\<open>typing.get_type_hints(method)\<close> evaluates the annotations that are strings and
  removes \<^verbatim>\<open>Annotated\<close>; its result is a field of the object.  It raises on an
  annotation that does not evaluate; the model takes the functions for which it
  returns.  The annotations of \<^verbatim>\<open>DocumentTools\<close> are classes, and the hints are the
  annotations.
\<close>

definition get_type_hints :: "py_object \<Rightarrow> (string \<times> py_type) list" where
  "get_type_hints method = typing_hints method"

text \<open>\<^verbatim>\<open>str(d)\<close> of an annotations dictionary, whose keys are identifiers.\<close>

definition str_dict :: "(string \<times> py_type) list \<Rightarrow> string" where
  "str_dict d =
     ''{'' @ str_join '', '' (map (\<lambda>(k, v). [CHR 0x27] @ k @ [CHR 0x27] @ '': '' @ type_str v) d)
       @ ''}''"

section \<open>The tool functions\<close>

type_synonym bytes = "nat list"

definition html_content :: string where
  "html_content =
     [CHR ''\<newline>''] @
     ''        Here are the extracted tables in HTML format: 1. **Sales Numbers'' @
     '' for Q1:** <table border='' @
     [CHR 0x27] @
     ''1'' @
     [CHR 0x27] @
     '' style='' @
     [CHR 0x27] @
     ''border-collapse:collapse;width:50%;'' @
     [CHR 0x27] @
     ''> <thead> <tr> <th>Quarter</th> <th>Bicycle Sales</th> <th>Helmet Sales<'' @
     ''/th> <th>Total Sales</th> </tr> </thead> <tbody> <tr> <td>Q1</td> <td>$1'' @
     ''50,000</td> <td>$75,000</td> <td>$225,000</td> </tr> <tr> <td>Q2</td> <t'' @
     ''d>$180,000</td> <td>$90,000</td> <td>$270,000</td> </tr> <tr> <td>Q3</td'' @
     ''> <td>$210,000</td> <td>$105,000</td> <td>$315,000</td> </tr> <tr> <td>Q'' @
     ''4</td> <td>$240,000</td> <td>$120,000</td> <td>$360,000</td> </tr> </tbo'' @
     ''dy></table>2. **Projected Sales Numbers:**<table border='' @
     [CHR 0x27] @
     ''1'' @
     [CHR 0x27] @
     '' style='' @
     [CHR 0x27] @
     ''border-collapse:collapse;width:50%;'' @
     [CHR 0x27] @
     ''> <thead> <tr> <th>Quarter</th> <th>Projected Bicycle Sales</th> <th>Pro'' @
     ''jected Helmet Sales</th> <th>Projected Total Sales</th> </tr> </thead> <'' @
     ''tbody> <tr> <td>Q1</td> <td>$270,000</td> <td>$135,000</td> <td>$405,000'' @
     ''</td> </tr> <tr> <td>Q2</td> <td>$300,000</td> <td>$150,000</td> <td>$45'' @
     ''0,000</td> </tr> <tr> <td>Q3</td> <td>$330,000</td> <td>$165,000</td> <t'' @
     ''d>$495,000</td> </tr> <tr> <td>Q4</td> <td>$360,000</td> <td>$180,000</t'' @
     ''d> <td>$540,000</td> </tr> </tbody></table>'' @
     [CHR 0x22] @
     [CHR ''\<newline>''] @
     ''        ''"

text \<open>
  \<^verbatim>\<open>read_document_contents(document)\<close> (lines 19-26); the value is what awaiting
  the coroutine returns.
\<close>

definition read_document_contents :: "bytes \<Rightarrow> string" where
  "read_document_contents document = html_content"

section \<open>The reflection helpers\<close>

text \<open>\<^verbatim>\<open>get_all_kernel_functions\<close> (lines 64-89): the loop over the members.\<close>

fun kernel_functions_loop ::
  "(string \<times> py_object) list \<Rightarrow> (string \<times> py_object) list \<Rightarrow> (string \<times> py_object) list" where
  "kernel_functions_loop [] kernel_functions = kernel_functions"
| "kernel_functions_loop ((name, method) # rest) kernel_functions =
     (if str_startswith name ''_'' \<or> name = ''get_all_kernel_functions''
      then kernel_functions_loop rest kernel_functions
      else let method_attrs = dunder_annotations method in
        if hasattr_kernel_function method
           \<or> str_contains ''kernel_function'' (str_dict method_attrs)
        then kernel_functions_loop rest (dict_set kernel_functions name method)
        else kernel_functions_loop rest kernel_functions)"

definition get_all_kernel_functions :: "py_class \<Rightarrow> (string \<times> py_object) list" where
  "get_all_kernel_functions cls = kernel_functions_loop (getmembers cls isfunction) []"

text \<open>\<^verbatim>\<open>generate_tools_json_doc\<close> (lines 91-172), lines 110-119: the description.\<close>

definition tool_description :: "py_object \<Rightarrow> string" where
  "tool_description method =
     (let description = [];
          description = (case dunder_doc method of
                           Some d \<Rightarrow> if d \<noteq> [] then str_strip d else description
                         | None \<Rightarrow> description);
          description = (case dunder_kernel_function method of
                           Some kf \<Rightarrow> (case kf_description kf of
                                        Some d \<Rightarrow> if d \<noteq> [] then d else description
                                      | None \<Rightarrow> description)
                         | None \<Rightarrow> description)
      in description)"

text \<open>Lines 134-151: the type shown for a parameter.\<close>

definition param_type :: "(string \<times> py_type) list \<Rightarrow> string \<Rightarrow> string" where
  "param_type type_hints param_name =
     (case map_of type_hints param_name of
        None \<Rightarrow> ''string''
      | Some type_obj \<Rightarrow>
          (case type_name type_obj of
             Some n \<Rightarrow> str_lower n
           | None \<Rightarrow>
               (let param_type = str_lower (type_str type_obj) in
                if str_contains ''int'' param_type then ''int''
                else if str_contains ''float'' param_type then ''float''
                else if str_contains ''bool'' param_type then ''boolean''
                else ''string'')))"

text \<open>Lines 129-159: the loop over the parameters of the signature.\<close>

fun args_loop ::
  "(string \<times> py_type) list \<Rightarrow> string list \<Rightarrow> (string \<times> json) list \<Rightarrow> (string \<times> json) list" where
  "args_loop type_hints [] args_dict = args_dict"
| "args_loop type_hints (param_name # rest) args_dict =
     (if param_name \<in> set [''cls'', ''self''] then args_loop type_hints rest args_dict
      else args_loop type_hints rest
        (dict_set args_dict param_name
           (JObject [(''description'', JString param_name),
                     (''title'', JString (str_title (str_replace CHR ''_'' CHR '' '' param_name))),
                     (''type'', JString (param_type type_hints param_name))])))"

definition args_dict_of :: "py_object \<Rightarrow> (string \<times> json) list" where
  "args_dict_of method = args_loop (get_type_hints method) (parameters method) []"

text \<open>Lines 162-167: one entry of the manifest.\<close>

definition tool_entry :: "py_class \<Rightarrow> string \<Rightarrow> py_object \<Rightarrow> json" where
  "tool_entry cls name method =
     JObject [(''agent'', JString (agent_name cls)),
              (''function'', JString name),
              (''description'', JString (tool_description method)),
              (''arguments'',
                 JString (str_replace (CHR 0x22) (CHR 0x27)
                   (json_dumps (JObject (args_dict_of method)))))]"

text \<open>Lines 103-169: the loop over the members.\<close>

fun tools_loop :: "py_class \<Rightarrow> (string \<times> py_object) list \<Rightarrow> json list \<Rightarrow> json list" where
  "tools_loop cls [] tools_list = tools_list"
| "tools_loop cls ((name, method) # rest) tools_list =
     (if str_startswith name ''_'' \<or> name = ''generate_tools_json_doc''
      then tools_loop cls rest tools_list
      else if hasattr_kernel_function method
        then tools_loop cls rest (tools_list @ [tool_entry cls name method])
        else tools_loop cls rest tools_list)"

definition tools_list_of :: "py_class \<Rightarrow> json list" where
  "tools_list_of cls = tools_loop cls (getmembers cls isfunction) []"

definition generate_tools_json_doc :: "py_class \<Rightarrow> string" where
  "generate_tools_json_doc cls = json_dumps_indent2 (JArray (tools_list_of cls))"

section \<open>The class DocumentTools\<close>

text \<open>
  The decorator \<^verbatim>\<open>kernel_function(description=...)\<close> of the semantic-kernel
  library returns the function with the attribute \<^verbatim>\<open>__kernel_function__\<close> set.
  The value it stores there belongs to the library; it is the parameter
  \<open>marker\<close>, a function of the description given to the decorator.  The
  decorator of the library stores \<^verbatim>\<open>True\<close>, which has no attribute
  \<^verbatim>\<open>description\<close>: the marker \<open>flag_marker\<close> below.  A static method read from
  the class is the plain function; a class method read from the class is a bound
  method.
\<close>

definition kernel_function ::
  "(string \<Rightarrow> kernel_function_marker) \<Rightarrow> string \<Rightarrow> py_object \<Rightarrow> py_object" where
  "kernel_function marker description f = f\<lparr>dunder_kernel_function := Some (marker description)\<rparr>"

definition staticmethod :: "py_object \<Rightarrow> py_object" where
  "staticmethod f = f"

definition classmethod :: "py_object \<Rightarrow> py_object" where
  "classmethod f = f\<lparr>obj_type := MethodType, parameters := tl (parameters f)\<rparr>"

definition class_attribute :: py_object where
  "class_attribute =
     \<lparr>obj_type = OtherType, dunder_doc = None, dunder_kernel_function = None,
      dunder_annotations = [], parameters = [],
      typing_hints = []\<rparr>"

definition bytes_class :: py_type where
  "bytes_class = \<lparr>type_name = Some ''bytes'', type_str = ''<class '' @ [CHR 0x27] @ ''bytes'' @ [CHR 0x27] @ ''>''\<rparr>"

definition str_class :: py_type where
  "str_class = \<lparr>type_name = Some ''str'', type_str = ''<class '' @ [CHR 0x27] @ ''str'' @ [CHR 0x27] @ ''>''\<rparr>"

definition dict_alias :: py_type where
  "dict_alias = \<lparr>type_name = Some ''dict'', type_str = ''dict[str, typing.Callable]''\<rparr>"

definition def_read_document_contents :: py_object where
  "def_read_document_contents =
     \<lparr>obj_type = FunctionType, dunder_doc = None, dunder_kernel_function = None,
      dunder_annotations = [(''document'', bytes_class), (''return'', str_class)],
      parameters = [''document''],
      typing_hints = [(''document'', bytes_class), (''return'', str_class)]\<rparr>"

definition save_to_excel_doc :: string where
  "save_to_excel_doc =
     [CHR ''\<newline>''] @
     ''        Converts HTML tables in the provided HTML content to an Excel file.'' @
     [CHR ''\<newline>''] @
     ''        '' @
     [CHR ''\<newline>''] @
     ''        Args:'' @
     [CHR ''\<newline>''] @
     ''            html_content (str): The HTML content containing tables.'' @
     [CHR ''\<newline>''] @
     ''        '' @
     [CHR ''\<newline>''] @
     ''        Returns:'' @
     [CHR ''\<newline>''] @
     ''            bytes: The function saves the Excel file as '' @
     [CHR 0x27] @
     ''output.xlsx'' @
     [CHR 0x27] @
     ''.'' @
     [CHR ''\<newline>''] @
     ''    ''"

definition def_save_to_excel :: py_object where
  "def_save_to_excel =
     \<lparr>obj_type = FunctionType, dunder_doc = Some save_to_excel_doc,
      dunder_kernel_function = None,
      dunder_annotations = [(''html_content'', str_class), (''return'', bytes_class)],
      parameters = [''html_content''],
      typing_hints = [(''html_content'', str_class), (''return'', bytes_class)]\<rparr>"

definition get_all_kernel_functions_doc :: string where
  "get_all_kernel_functions_doc =
     [CHR ''\<newline>''] @
     ''        Returns a dictionary of all methods in this class that have the '' @
     ''@kernel_function annotation.'' @
     [CHR ''\<newline>''] @
     ''        This function itself is not annotated with @kernel_function.'' @
     [CHR ''\<newline>''] @
     [CHR ''\<newline>''] @
     ''        Returns:'' @
     [CHR ''\<newline>''] @
     ''            Dict[str, Callable]: Dictionary with function names as keys '' @
     ''and function objects as values'' @
     [CHR ''\<newline>''] @
     ''        ''"

definition def_get_all_kernel_functions :: py_object where
  "def_get_all_kernel_functions =
     \<lparr>obj_type = FunctionType, dunder_doc = Some get_all_kernel_functions_doc,
      dunder_kernel_function = None,
      dunder_annotations = [(''return'', dict_alias)],
      parameters = [''cls''],
      typing_hints = [(''return'', dict_alias)]\<rparr>"

definition generate_tools_json_doc_doc :: string where
  "generate_tools_json_doc_doc =
     [CHR ''\<newline>''] @
     ''        Generate a JSON document containing information about all method'' @
     ''s in the class.'' @
     [CHR ''\<newline>''] @
     [CHR ''\<newline>''] @
     ''        Returns:'' @
     [CHR ''\<newline>''] @
     ''            str: JSON string containing the methods'' @
     [CHR 0x27] @
     '' information'' @
     [CHR ''\<newline>''] @
     ''        ''"

definition def_generate_tools_json_doc :: py_object where
  "def_generate_tools_json_doc =
     \<lparr>obj_type = FunctionType, dunder_doc = Some generate_tools_json_doc_doc,
      dunder_kernel_function = None,
      dunder_annotations = [(''return'', str_class)],
      parameters = [''cls''],
      typing_hints = [(''return'', str_class)]\<rparr>"

text \<open>
  The attributes every class inherits from \<^verbatim>\<open>object\<close>; none of them is a plain
  function.
\<close>

definition object_attribute_names :: "string list" where
  "object_attribute_names =
     [''__class__'', ''__delattr__'', ''__dict__'', ''__dir__'', ''__doc__'', ''__eq__'',
      ''__format__'', ''__ge__'', ''__getattribute__'', ''__gt__'', ''__hash__'',
      ''__init__'', ''__init_subclass__'', ''__le__'', ''__lt__'', ''__module__'',
      ''__ne__'', ''__new__'', ''__reduce__'', ''__reduce_ex__'', ''__repr__'',
      ''__setattr__'', ''__sizeof__'', ''__str__'', ''__subclasshook__'', ''__weakref__'']"

text \<open>
  The class body (lines 14-172).  Line 16 ends in a line-continuation backslash
  and the body of \<^verbatim>\<open>save_to_excel\<close> is indented at two depths, so the interpreter
  rejects the file as it stands; the model reads the class as it is laid out, with
  \<^verbatim>\<open>formatting_instructions\<close> and \<^verbatim>\<open>agent_name\<close> as two assignments.  The value of
  \<^verbatim>\<open>AgentType.HR.value\<close> comes from another module and is the parameter \<open>hr\<close>.
\<close>

definition DocumentTools :: "(string \<Rightarrow> kernel_function_marker) \<Rightarrow> string \<Rightarrow> py_class" where
  "DocumentTools marker hr =
     \<lparr>agent_name = hr,
      members =
        map (\<lambda>name. (name, class_attribute)) object_attribute_names @
        [(''formatting_instructions'', class_attribute),
         (''agent_name'', class_attribute),
         (''read_document_contents'',
            staticmethod (kernel_function marker
              ''Read contents of the data provided, extract tables and return them on HTML format.''
              def_read_document_contents)),
         (''save_to_excel'',
            staticmethod (kernel_function marker
              ''Save the extracted HTML tables to an Excel file.'' def_save_to_excel)),
         (''get_all_kernel_functions'', classmethod def_get_all_kernel_functions),
         (''generate_tools_json_doc'', classmethod def_generate_tools_json_doc)]\<rparr>"

section \<open>Reading the manifest and the marker of the library\<close>

text \<open>\<^verbatim>\<open>obj[key]\<close> on a JSON object, as a reader of the manifest looks a field up.\<close>

definition json_get :: "json \<Rightarrow> string \<Rightarrow> json option" where
  "json_get obj key = (case obj of JObject kvs \<Rightarrow> map_of kvs key | _ \<Rightarrow> None)"

text \<open>
  The marker of the semantic-kernel library: \<^verbatim>\<open>__kernel_function__ = True\<close>,
  whatever the description, so that \<^verbatim>\<open>getattr(True, "description", None)\<close> is
  \<^verbatim>\<open>None\<close>.
\<close>

definition flag_marker :: "string \<Rightarrow> kernel_function_marker" where
  "flag_marker d = \<lparr>kf_description = None\<rparr>"

section \<open>A JSON reader\<close>

text \<open>
  The manifest is read back by a JSON reader for the values the encoder writes:
  strings, arrays and objects.  It follows the grammar of JSON on them (white space,
  the escapes of a string, no control character inside a string) and rejects every
  other text.  The reader splits the text into tokens and then parses the tokens by
  recursive descent; the parser takes fuel, and \<open>json_loads\<close> gives it more than
  the number of tokens.
\<close>

datatype token = LBrace | RBrace | LBracket | RBracket | Colon | Comma | TString string

definition is_json_space :: "char \<Rightarrow> bool" where
  "is_json_space c = (c = CHR '' '' \<or> c = CHR 0x09 \<or> c = CHR 0x0A \<or> c = CHR 0x0D)"

definition punctuation :: "char \<Rightarrow> token option" where
  "punctuation c =
     (if c = CHR ''{'' then Some LBrace
      else if c = CHR ''}'' then Some RBrace
      else if c = CHR ''['' then Some LBracket
      else if c = CHR '']'' then Some RBracket
      else if c = CHR '':'' then Some Colon
      else if c = CHR '','' then Some Comma
      else None)"

definition hex_value :: "char \<Rightarrow> nat option" where
  "hex_value c =
     (if CHR ''0'' \<le> c \<and> c \<le> CHR ''9'' then Some (of_char c - 48)
      else if CHR ''a'' \<le> c \<and> c \<le> CHR ''f'' then Some (of_char c - 87)
      else if CHR ''A'' \<le> c \<and> c \<le> CHR ''F'' then Some (of_char c - 55)
      else None)"

definition unicode_unescape :: "char \<Rightarrow> char \<Rightarrow> char \<Rightarrow> char \<Rightarrow> char option" where
  "unicode_unescape a b c d =
     (case (hex_value a, hex_value b, hex_value c, hex_value d) of
        (Some h3, Some h2, Some h1, Some h0) \<Rightarrow>
          (if h3 = 0 \<and> h2 = 0 then Some (char_of (16 * h1 + h0)) else None)
      | _ \<Rightarrow> None)"

definition simple_unescape :: "char \<Rightarrow> char option" where
  "simple_unescape e =
     (if e = CHR 0x22 then Some (CHR 0x22)
      else if e = CHR 0x5C then Some (CHR 0x5C)
      else if e = CHR ''/'' then Some (CHR ''/'')
      else if e = CHR ''n'' then Some (CHR 0x0A)
      else if e = CHR ''r'' then Some (CHR 0x0D)
      else if e = CHR ''t'' then Some (CHR 0x09)
      else if e = CHR ''f'' then Some (CHR 0x0C)
      else if e = CHR ''b'' then Some (CHR 0x08)
      else None)"

fun lexer :: "string \<Rightarrow> token list option"
  and lex_string :: "string \<Rightarrow> string \<Rightarrow> token list option" where
  "lexer [] = Some []"
| "lexer (c # cs) =
     (if is_json_space c then lexer cs
      else if c = CHR 0x22 then lex_string [] cs
      else (case punctuation c of
              Some t \<Rightarrow> map_option ((#) t) (lexer cs)
            | None \<Rightarrow> None))"
| "lex_string acc [] = None"
| "lex_string acc (c # cs) =
     (if c = CHR 0x22 then map_option ((#) (TString acc)) (lexer cs)
      else if c = CHR 0x5C then
        (case cs of
           [] \<Rightarrow> None
         | e # cs' \<Rightarrow>
             if e = CHR ''u'' then
               (case cs' of
                  h3 # h2 # h1 # h0 # cs'' \<Rightarrow>
                    (case unicode_unescape h3 h2 h1 h0 of
                       Some ch \<Rightarrow> lex_string (acc @ [ch]) cs''
                     | None \<Rightarrow> None)
                | _ \<Rightarrow> None)
             else (case simple_unescape e of
                     Some ch \<Rightarrow> lex_string (acc @ [ch]) cs'
                   | None \<Rightarrow> None))
      else if (of_char c :: nat) < 32 then None
      else lex_string (acc @ [c]) cs)"

fun parse_value :: "nat \<Rightarrow> token list \<Rightarrow> (json \<times> token list) option"
  and parse_elements :: "nat \<Rightarrow> json list \<Rightarrow> token list \<Rightarrow> (json \<times> token list) option"
  and parse_members :: "nat \<Rightarrow> (string \<times> json) list \<Rightarrow> token list \<Rightarrow> (json \<times> token list) option" where
  "parse_value 0 ts = None"
| "parse_value (Suc n) [] = None"
| "parse_value (Suc n) (t # ts) =
     (case t of
        TString s \<Rightarrow> Some (JString s, ts)
      | LBracket \<Rightarrow>
          (case ts of
             RBracket # ts' \<Rightarrow> Some (JArray [], ts')
           | _ \<Rightarrow> (case parse_value n ts of
                     Some (v, ts') \<Rightarrow> parse_elements n [v] ts'
                   | None \<Rightarrow> None))
      | LBrace \<Rightarrow>
          (case ts of
             RBrace # ts' \<Rightarrow> Some (JObject [], ts')
           | TString k # Colon # ts' \<Rightarrow>
               (case parse_value n ts' of
                  Some (v, ts'') \<Rightarrow> parse_members n [(k, v)] ts''
                | None \<Rightarrow> None)
           | _ \<Rightarrow> None)
      | _ \<Rightarrow> None)"
| "parse_elements 0 acc ts = None"
| "parse_elements (Suc n) acc [] = None"
| "parse_elements (Suc n) acc (t # ts) =
     (case t of
        RBracket \<Rightarrow> Some (JArray acc, ts)
      | Comma \<Rightarrow> (case parse_value n ts of
                    Some (v, ts') \<Rightarrow> parse_elements n (acc @ [v]) ts'
                  | None \<Rightarrow> None)
      | _ \<Rightarrow> None)"
| "parse_members 0 acc ts = None"
| "parse_members (Suc n) acc [] = None"
| "parse_members (Suc n) acc (t # ts) =
     (case t of
        RBrace \<Rightarrow> Some (JObject acc, ts)
      | Comma \<Rightarrow>
          (case ts of
             TString k # Colon # ts' \<Rightarrow>
               (case parse_value n ts' of
                  Some (v, ts'') \<Rightarrow> parse_members n (acc @ [(k, v)]) ts''
                | None \<Rightarrow> None)
           | _ \<Rightarrow> None)
      | _ \<Rightarrow> None)"

definition json_loads :: "string \<Rightarrow> json option" where
  "json_loads s =
     (case lexer s of
        None \<Rightarrow> None
      | Some ts \<Rightarrow>
          (case parse_value (Suc (length ts)) ts of
             Some (v, []) \<Rightarrow> Some v
           | _ \<Rightarrow> None))"

text \<open>The tokens of a value, in the order the encoder writes them.\<close>

fun tokens :: "json \<Rightarrow> token list"
  and elements_tokens :: "json list \<Rightarrow> token list"
  and members_tokens :: "(string \<times> json) list \<Rightarrow> token list" where
  "tokens (JString s) = [TString s]"
| "tokens (JArray []) = [LBracket, RBracket]"
| "tokens (JArray (x # xs)) = LBracket # tokens x @ elements_tokens xs"
| "tokens (JObject []) = [LBrace, RBrace]"
| "tokens (JObject ((k, v) # kvs)) = LBrace # TString k # Colon # tokens v @ members_tokens kvs"
| "elements_tokens [] = [RBracket]"
| "elements_tokens (x # xs) = Comma # tokens x @ elements_tokens xs"
| "members_tokens [] = [RBrace]"
| "members_tokens ((k, v) # kvs) = Comma # TString k # Colon # tokens v @ members_tokens kvs"

section \<open>A subclass used as a concrete input\<close>

text \<open>
  Both helpers are class methods, so \<^verbatim>\<open>cls\<close> is \<^verbatim>\<open>DocumentTools\<close> or a subclass
  of it.  The subclass below adds one undecorated static method,
  \<^verbatim>\<open>def describe(kernel_function_name: str) -> str\<close>.
\<close>

definition def_describe :: py_object where
  "def_describe =
     \<lparr>obj_type = FunctionType, dunder_doc = None, dunder_kernel_function = None,
      dunder_annotations = [(''kernel_function_name'', str_class), (''return'', str_class)],
      parameters = [''kernel_function_name''],
      typing_hints = [(''kernel_function_name'', str_class), (''return'', str_class)]\<rparr>"

definition DescribingTools :: py_class where
  "DescribingTools =
     (let base = DocumentTools flag_marker ''Hr_Agent'' in
      base\<lparr>members := members base @ [(''describe'', staticmethod def_describe)]\<rparr>)"

section \<open>save_to_excel\<close>

text \<open>
  \<^verbatim>\<open>save_to_excel\<close> (lines 28-62) calls BeautifulSoup and pandas.  Their
  operations are parameters of the model, each returning its value or the exception
  it raises.  The file system maps a path to what is there, a file with its bytes or
  a directory.
\<close>

datatype exn = Exception string string

datatype node = File bytes | Directory

type_synonym filesystem = "string \<rightharpoonup> node"

record ('soup, 'tag, 'df, 'book) libraries =
  BeautifulSoup :: "string \<Rightarrow> string \<Rightarrow> exn + 'soup"
  find_all :: "'soup \<Rightarrow> string \<Rightarrow> exn + 'tag list"
  str_tag :: "'tag \<Rightarrow> string"
  read_html :: "string \<Rightarrow> exn + 'df list"
  new_workbook :: "string \<Rightarrow> exn + 'book"
  to_excel :: "'df \<Rightarrow> 'book \<Rightarrow> string \<Rightarrow> exn + 'book"
  save_workbook :: "'book \<Rightarrow> exn + bytes"

text \<open>
  \<^verbatim>\<open>open(path, 'wb')\<close> creates the file or empties it, and fails on a directory;
  \<^verbatim>\<open>open(path, 'rb')\<close> followed by \<^verbatim>\<open>f.read()\<close> returns the bytes of the file.
\<close>

definition open_write :: "filesystem \<Rightarrow> string \<Rightarrow> exn + filesystem" where
  "open_write fs path =
     (case fs path of
        Some Directory \<Rightarrow>
          Inl (Exception ''IsADirectoryError''
                 (''[Errno 21] Is a directory: '' @ [CHR 0x27] @ path @ [CHR 0x27]))
      | _ \<Rightarrow> Inr (fs(path \<mapsto> File [])))"

definition open_read :: "filesystem \<Rightarrow> string \<Rightarrow> exn + bytes" where
  "open_read fs path =
     (case fs path of
        None \<Rightarrow>
          Inl (Exception ''FileNotFoundError''
                 (''[Errno 2] No such file or directory: '' @ [CHR 0x27] @ path @ [CHR 0x27]))
      | Some Directory \<Rightarrow>
          Inl (Exception ''IsADirectoryError''
                 (''[Errno 21] Is a directory: '' @ [CHR 0x27] @ path @ [CHR 0x27]))
      | Some (File data) \<Rightarrow> Inr data)"

text \<open>
  \<^verbatim>\<open>pd.ExcelWriter(path, engine=...)\<close> (line 48) finds the engine and, with it, opens
  the path for writing: the file is there and empty from then on.  The writer holds
  the path and the workbook built so far.  \<^verbatim>\<open>writer.close()\<close> (line 58) writes the
  saved workbook to the path.
\<close>

record 'book excel_writer =
  writer_path :: string
  writer_book :: 'book

definition ExcelWriter ::
  "('soup, 'tag, 'df, 'book) libraries \<Rightarrow> string \<Rightarrow> string \<Rightarrow> filesystem
     \<Rightarrow> exn + ('book excel_writer \<times> filesystem)" where
  "ExcelWriter L path engine fs =
     (case new_workbook L engine of
        Inl e \<Rightarrow> Inl e
      | Inr book \<Rightarrow>
          (case open_write fs path of
             Inl e \<Rightarrow> Inl e
           | Inr fs' \<Rightarrow> Inr (\<lparr>writer_path = path, writer_book = book\<rparr>, fs')))"

definition writer_close ::
  "('soup, 'tag, 'df, 'book) libraries \<Rightarrow> 'book excel_writer \<Rightarrow> filesystem \<Rightarrow> exn + filesystem" where
  "writer_close L excel_writer fs =
     (case save_workbook L (writer_book excel_writer) of
        Inl e \<Rightarrow> Inl e
      | Inr data \<Rightarrow> Inr (fs(writer_path excel_writer \<mapsto> File data)))"

text \<open>The decimal text of a number, as an f-string formats it.\<close>

fun str_nat :: "nat \<Rightarrow> string" where
  "str_nat n =
     (if n < 10 then [char_of (48 + n)]
      else str_nat (n div 10) @ [char_of (48 + n mod 10)])"

declare str_nat.simps [simp del]

text \<open>
  Lines 51-55: the loop over \<^verbatim>\<open>enumerate(tables)\<close>.  Line 53 takes the first
  frame of the list \<^verbatim>\<open>pd.read_html\<close> returns; on the empty list the indexing raises
  \<^verbatim>\<open>IndexError\<close>.  Line 55 adds the sheet to the workbook of the writer.
\<close>

fun tables_loop ::
  "('soup, 'tag, 'df, 'book) libraries \<Rightarrow> nat \<Rightarrow> 'tag list \<Rightarrow> 'book excel_writer
     \<Rightarrow> exn + 'book excel_writer" where
  "tables_loop L i [] excel_writer = Inr excel_writer"
| "tables_loop L i (table # rest) excel_writer =
     (case read_html L (str_tag L table) of
        Inl e \<Rightarrow> Inl e
      | Inr dfs \<Rightarrow>
          (case dfs of
             [] \<Rightarrow> Inl (Exception ''IndexError'' ''list index out of range'')
           | df # _ \<Rightarrow>
               (case to_excel L df (writer_book excel_writer) (''Table_'' @ str_nat (i + 1)) of
                  Inl e \<Rightarrow> Inl e
                | Inr book \<Rightarrow>
                    tables_loop L (i + 1) rest (excel_writer\<lparr>writer_book := book\<rparr>))))"

definition save_to_excel ::
  "('soup, 'tag, 'df, 'book) libraries \<Rightarrow> string \<Rightarrow> filesystem \<Rightarrow> (exn + bytes) \<times> filesystem" where
  "save_to_excel L html fs =
     (case BeautifulSoup L html ''html.parser'' of
        Inl e \<Rightarrow> (Inl e, fs)
      | Inr soup \<Rightarrow>
     (case find_all L soup ''table'' of
        Inl e \<Rightarrow> (Inl e, fs)
      | Inr tables \<Rightarrow>
     (case ExcelWriter L ''output.xlsx'' ''xlsxwriter'' fs of
        Inl e \<Rightarrow> (Inl e, fs)
      | Inr (excel_writer, fs1) \<Rightarrow>
     (case tables_loop L 0 tables excel_writer of
        Inl e \<Rightarrow> (Inl e, fs1)
      | Inr excel_writer' \<Rightarrow>
     (case writer_close L excel_writer' fs1 of
        Inl e \<Rightarrow> (Inl e, fs1)
      | Inr fs2 \<Rightarrow>
     (case open_read fs2 ''output.xlsx'' of
        Inl e \<Rightarrow> (Inl e, fs2)
      | Inr excel_bytes \<Rightarrow> (Inr excel_bytes, fs2)))))))"



text \<open>The four operations of the module as calls on a state, the file system.\<close>

datatype call =
  Call_read_document_contents bytes
  | Call_save_to_excel string
  | Call_get_all_kernel_functions py_class
  | Call_generate_tools_json_doc py_class

datatype result =
  Returned_str string
  | Returned_bytes bytes
  | Returned_dict "(string \<times> py_object) list"
  | Raised exn

fun run ::
  "('soup, 'tag, 'df, 'book) libraries \<Rightarrow> call \<Rightarrow> filesystem \<Rightarrow> result \<times> filesystem" where
  "run L (Call_read_document_contents document) fs =
     (Returned_str (read_document_contents document), fs)"
| "run L (Call_save_to_excel html) fs =
     (case save_to_excel L html fs of
        (Inl e, fs') \<Rightarrow> (Raised e, fs')
      | (Inr excel_bytes, fs') \<Rightarrow> (Returned_bytes excel_bytes, fs'))"
| "run L (Call_get_all_kernel_functions cls) fs =
     (Returned_dict (get_all_kernel_functions cls), fs)"
| "run L (Call_generate_tools_json_doc cls) fs =
     (Returned_str (generate_tools_json_doc cls), fs)"

section \<open>A stand-in for the libraries\<close>

text \<open>
  To run the model on a concrete text the library operations need values.  The
  stand-in below finds the elements of a tag name, whatever the case of the letters,
  in a text without nested elements of that name.  Its \<^verbatim>\<open>read_html\<close> follows
  pandas on the three kinds of table used here: a table without text raises
  \<^verbatim>\<open>ValueError\<close>, a table with text but without a row of cells gives no frame, a
  table with a row of cells gives one frame.  A workbook is the list of its sheets,
  and the saved file of a workbook without sheets has the sheet \<^verbatim>\<open>Sheet1\<close>.
\<close>

definition tag_opens :: "string \<Rightarrow> string \<Rightarrow> bool" where
  "tag_opens name text =
     (str_startswith (str_lower text) (''<'' @ name) \<and>
      (case drop (length name + 1) text of
         [] \<Rightarrow> False
       | c # _ \<Rightarrow> c \<in> {CHR ''>'', CHR '' '', CHR ''/'', CHR 0x09, CHR 0x0A}))"

fun scan_elements :: "string \<Rightarrow> string option \<Rightarrow> string \<Rightarrow> string list" where
  "scan_elements name current [] = []"
| "scan_elements name None (c # cs) =
     (if tag_opens name (c # cs) then scan_elements name (Some [c]) cs
      else scan_elements name None cs)"
| "scan_elements name (Some element) (c # cs) =
     (if str_startswith (rev (str_lower (element @ [c]))) (rev (''</'' @ name @ ''>''))
      then (element @ [c]) # scan_elements name None cs
      else scan_elements name (Some (element @ [c])) cs)"

fun has_tag :: "string \<Rightarrow> string \<Rightarrow> bool" where
  "has_tag name [] = False"
| "has_tag name (c # cs) = (tag_opens name (c # cs) \<or> has_tag name cs)"

fun has_text :: "bool \<Rightarrow> string \<Rightarrow> bool" where
  "has_text in_tag [] = False"
| "has_text in_tag (c # cs) =
     (if c = CHR ''<'' then has_text True cs
      else if c = CHR ''>'' then has_text False cs
      else if in_tag \<or> c = CHR 0x0A then has_text in_tag cs
      else True)"

definition stand_in_read_html :: "string \<Rightarrow> exn + string list" where
  "stand_in_read_html text =
     (if \<not> has_text False text
      then Inl (Exception ''ValueError''
                  (''No tables found matching pattern '' @ [CHR 0x27] @ ''.+'' @ [CHR 0x27]))
      else if has_tag ''tr'' text \<and> (has_tag ''td'' text \<or> has_tag ''th'' text) then Inr [text]
      else Inr [])"

definition stand_in_save_workbook :: "(string \<times> string) list \<Rightarrow> exn + bytes" where
  "stand_in_save_workbook book =
     Inr (map of_char
       (''PK'' @ concat (map (\<lambda>(sheet_name, df). sheet_name @ df)
                         (if book = [] then [(''Sheet1'', [])] else book))))"

definition stand_in_libraries :: "(string, string, string, (string \<times> string) list) libraries" where
  "stand_in_libraries =
     \<lparr>BeautifulSoup = (\<lambda>markup parser. Inr markup),
      find_all = (\<lambda>soup name. Inr (scan_elements name None soup)),
      str_tag = (\<lambda>tag. tag),
      read_html = stand_in_read_html,
      new_workbook = (\<lambda>engine. Inr []),
      to_excel = (\<lambda>df book sheet_name. Inr (book @ [(sheet_name, df)])),
      save_workbook = stand_in_save_workbook\<rparr>"

section \<open>Properties of the reflection helpers\<close>

lemma str_strip_Nil: "str_strip [] = []"
  by (simp add: str_strip_def)

text \<open>
  Claim C3: \<^verbatim>\<open>read_document_contents\<close> is a constant function.  Whatever bytes it
  is given, it returns the text of lines 23-25, so two calls on different documents
  return the same string.
\<close>

theorem read_document_contents_constant:
  "read_document_contents document = read_document_contents document' \<and>
   read_document_contents document = html_content"
  by (simp add: read_document_contents_def)

section \<open>The reader inverts the encoder\<close>

text \<open>
  Every text the encoder writes, in either layout and with either set of escapes,
  is read back as the value it was written from.
\<close>

lemma hex_value_hex_digit_list:
  "\<forall>m \<in> set [0..<16]. hex_value (hex_digit m) = Some m"
  by code_simp

lemma hex_value_hex_digit: "hex_value (hex_digit n) = Some (n mod 16)"
proof -
  have "n mod 16 \<in> set [0..<16]" by simp
  then have "hex_value (hex_digit (n mod 16)) = Some (n mod 16)"
    using hex_value_hex_digit_list by blast
  then show ?thesis by (simp add: hex_digit_def)
qed

lemma hex_value_zero: "hex_value CHR ''0'' = Some 0"
  by (simp add: hex_value_def)

lemma div_16_less: "(n::nat) < 256 \<Longrightarrow> n div 16 < 16"
  by (simp add: less_mult_imp_div_less)

lemma char_code_split: "16 * ((of_char c :: nat) div 16 mod 16) + of_char c mod 16 = of_char c"
proof -
  have "(of_char c :: nat) < 256" by simp
  then have "(of_char c :: nat) div 16 < 16" by (rule div_16_less)
  then have "(of_char c :: nat) div 16 mod 16 = of_char c div 16" by simp
  then show ?thesis by simp
qed

lemma unicode_unescape_escape:
  "unicode_unescape CHR ''0'' CHR ''0'' (hex_digit ((of_char c :: nat) div 16)) (hex_digit (of_char c)) = Some c"
  by (simp add: unicode_unescape_def hex_value_hex_digit hex_value_zero char_code_split)

lemma lex_string_escape_char:
  "lex_string acc (escape_char ea c @ rest) = lex_string (acc @ [c]) rest"
proof -
  consider (special) "c \<in> {CHR 0x22, CHR 0x5C, CHR 0x0A, CHR 0x0D, CHR 0x09, CHR 0x0C, CHR 0x08}"
    | (u) "c \<notin> {CHR 0x22, CHR 0x5C, CHR 0x0A, CHR 0x0D, CHR 0x09, CHR 0x0C, CHR 0x08}"
          "(of_char c :: nat) < 32 \<or> (ea \<and> 126 < (of_char c :: nat))"
    | (plain) "c \<notin> {CHR 0x22, CHR 0x5C, CHR 0x0A, CHR 0x0D, CHR 0x09, CHR 0x0C, CHR 0x08}"
          "\<not> (of_char c :: nat) < 32" "\<not> (ea \<and> 126 < (of_char c :: nat))"
    by blast
  then show ?thesis
  proof cases
    case special
    then show ?thesis
      by (elim insertE emptyE) (simp_all add: escape_char_def simple_unescape_def)
  next
    case u
    then have "escape_char ea c = unicode_escape c" by (auto simp: escape_char_def)
    then show ?thesis
      by (simp add: unicode_escape_def unicode_unescape_escape)
  next
    case plain
    then have "escape_char ea c = [c]" by (auto simp: escape_char_def)
    with plain show ?thesis by simp
  qed
qed

lemma lex_string_escaped:
  "lex_string acc (concat (map (escape_char ea) s) @ CHR 0x22 # rest)
     = map_option ((#) (TString (acc @ s))) (lexer rest)"
proof (induction s arbitrary: acc)
  case Nil
  show ?case by simp
next
  case (Cons c s)
  show ?case using Cons.IH [of "acc @ [c]"] by (simp add: lex_string_escape_char)
qed

lemma lexer_encode_basestring:
  "lexer (encode_basestring ea s @ rest) = map_option ((#) (TString s)) (lexer rest)"
  using lex_string_escaped [of "[]" ea s rest]
  by (simp add: encode_basestring_def is_json_space_def)

lemma lexer_spaces: "lexer (replicate k CHR '' '' @ rest) = lexer rest"
  by (induction k) (simp_all add: is_json_space_def)

lemma lexer_newline_indent: "lexer (newline_indent ind lvl @ rest) = lexer rest"
  by (cases ind) (simp_all add: newline_indent_def is_json_space_def lexer_spaces)

lemma lexer_item_separator:
  "lexer (item_separator ind @ rest) = map_option ((#) Comma) (lexer rest)"
  by (cases ind) (simp_all add: item_separator_def is_json_space_def punctuation_def)

lemma lexer_key_separator: "lexer ('': '' @ rest) = map_option ((#) Colon) (lexer rest)"
  by (simp add: is_json_space_def punctuation_def)

lemma str_join_Cons: "str_join sep (x # xs) = x @ concat (map (\<lambda>y. sep @ y) xs)"
  by (induction xs arbitrary: x) simp_all

lemma iterencode_array_Cons:
  "iterencode ea ind lvl (JArray (x # xs)) =
     ''['' @ newline_indent ind (lvl + 1) @ iterencode ea ind (lvl + 1) x
       @ concat (map (\<lambda>y. item_separator ind @ newline_indent ind (lvl + 1)
                          @ iterencode ea ind (lvl + 1) y) xs)
       @ newline_indent ind lvl @ '']''"
  by (simp add: str_join_Cons comp_def)

lemma iterencode_object_Cons:
  "iterencode ea ind lvl (JObject ((k, v) # kvs)) =
     ''{'' @ newline_indent ind (lvl + 1) @ encode_basestring ea k @ '': ''
       @ iterencode ea ind (lvl + 1) v
       @ concat (map (\<lambda>(k', v'). item_separator ind @ newline_indent ind (lvl + 1)
                          @ encode_basestring ea k' @ '': '' @ iterencode ea ind (lvl + 1) v') kvs)
       @ newline_indent ind lvl @ ''}''"
  by (simp add: str_join_Cons comp_def case_prod_unfold)

lemma tokens_cases:
  "(\<exists>s. tokens v = [TString s]) \<or> (\<exists>ts. tokens v = LBracket # ts) \<or> (\<exists>ts. tokens v = LBrace # ts)"
  by (cases v rule: tokens.cases) auto

lemma parse_tokens:
  "length (tokens v @ rest) < n \<Longrightarrow> parse_value n (tokens v @ rest) = Some (v, rest)"
  "length (elements_tokens xs @ rest) < n \<Longrightarrow>
     parse_elements n acc (elements_tokens xs @ rest) = Some (JArray (acc @ xs), rest)"
  "length (members_tokens kvs @ rest) < n \<Longrightarrow>
     parse_members n acc' (members_tokens kvs @ rest) = Some (JObject (acc' @ kvs), rest)"
proof (induction v and xs and kvs arbitrary: n rest and n acc rest and n acc' rest
    rule: tokens_elements_tokens_members_tokens.induct)
  case (1 s)
  then obtain m where "n = Suc m" by (cases n) auto
  then show ?case by simp
next
  case 2
  then obtain m where "n = Suc m" by (cases n) auto
  then show ?case by simp
next
  case (3 x xs)
  then obtain m where n: "n = Suc m" by (cases n) auto
  have a: "parse_value m (tokens x @ elements_tokens xs @ rest) = Some (x, elements_tokens xs @ rest)"
    using "3.IH"(1) [of "elements_tokens xs @ rest" m] "3.prems" n by simp
  have b: "parse_elements m [x] (elements_tokens xs @ rest) = Some (JArray ([x] @ xs), rest)"
    using "3.IH"(2) [of rest m "[x]"] "3.prems" n by simp
  show ?case using tokens_cases [of x] a b n by auto
next
  case 4
  then obtain m where "n = Suc m" by (cases n) auto
  then show ?case by simp
next
  case (5 k v kvs)
  then obtain m where n: "n = Suc m" by (cases n) auto
  have a: "parse_value m (tokens v @ members_tokens kvs @ rest) = Some (v, members_tokens kvs @ rest)"
    using "5.IH"(1) [of "members_tokens kvs @ rest" m] "5.prems" n by simp
  have b: "parse_members m [(k, v)] (members_tokens kvs @ rest) = Some (JObject ([(k, v)] @ kvs), rest)"
    using "5.IH"(2) [of rest m "[(k, v)]"] "5.prems" n by simp
  show ?case using a b n by simp
next
  case 6
  then obtain m where "n = Suc m" by (cases n) auto
  then show ?case by simp
next
  case (7 x xs)
  then obtain m where n: "n = Suc m" by (cases n) auto
  have a: "parse_value m (tokens x @ elements_tokens xs @ rest) = Some (x, elements_tokens xs @ rest)"
    using "7.IH"(1) [of "elements_tokens xs @ rest" m] "7.prems" n by simp
  have b: "parse_elements m (acc @ [x]) (elements_tokens xs @ rest) = Some (JArray ((acc @ [x]) @ xs), rest)"
    using "7.IH"(2) [of rest m "acc @ [x]"] "7.prems" n by simp
  show ?case using a b n by simp
next
  case 8
  then obtain m where "n = Suc m" by (cases n) auto
  then show ?case by simp
next
  case (9 k v kvs)
  then obtain m where n: "n = Suc m" by (cases n) auto
  have a: "parse_value m (tokens v @ members_tokens kvs @ rest) = Some (v, members_tokens kvs @ rest)"
    using "9.IH"(1) [of "members_tokens kvs @ rest" m] "9.prems" n by simp
  have b: "parse_members m (acc' @ [(k, v)]) (members_tokens kvs @ rest)
             = Some (JObject ((acc' @ [(k, v)]) @ kvs), rest)"
    using "9.IH"(2) [of rest m "acc' @ [(k, v)]"] "9.prems" n by simp
  show ?case using a b n by simp
qed

lemma lexer_iterencode:
  "lexer (iterencode ea ind lvl v @ rest) = map_option ((@) (tokens v)) (lexer rest)"
  "lexer (concat (map (\<lambda>y. item_separator ind @ newline_indent ind (lvl + 1)
                          @ iterencode ea ind (lvl + 1) y) xs)
            @ newline_indent ind lvl @ '']'' @ rest)
     = map_option ((@) (elements_tokens xs)) (lexer rest)"
  "lexer (concat (map (\<lambda>(k', v'). item_separator ind @ newline_indent ind (lvl + 1)
                          @ encode_basestring ea k' @ '': '' @ iterencode ea ind (lvl + 1) v') kvs)
            @ newline_indent ind lvl @ ''}'' @ rest)
     = map_option ((@) (members_tokens kvs)) (lexer rest)"
proof (induction v and xs and kvs arbitrary: lvl rest and lvl rest and lvl rest
    rule: tokens_elements_tokens_members_tokens.induct)
  case (1 s)
  show ?case by (cases "lexer rest") (simp_all add: lexer_encode_basestring)
next
  case 2
  show ?case by (cases "lexer rest") (simp_all add: punctuation_def is_json_space_def)
next
  case (3 x xs)
  have "lexer (iterencode ea ind lvl (JArray (x # xs)) @ rest)
      = map_option ((#) LBracket) (lexer (iterencode ea ind (lvl + 1) x
          @ (concat (map (\<lambda>y. item_separator ind @ newline_indent ind (lvl + 1)
                          @ iterencode ea ind (lvl + 1) y) xs)
             @ newline_indent ind lvl @ '']'' @ rest)))"
    unfolding iterencode_array_Cons
    by (simp add: punctuation_def is_json_space_def lexer_newline_indent)
  also have "\<dots> = map_option ((#) LBracket)
      (map_option ((@) (tokens x)) (map_option ((@) (elements_tokens xs)) (lexer rest)))"
    unfolding "3.IH"(1) "3.IH"(2) ..
  finally show ?case by (cases "lexer rest") simp_all
next
  case 4
  show ?case by (cases "lexer rest") (simp_all add: punctuation_def is_json_space_def)
next
  case (5 k v kvs)
  have "lexer (iterencode ea ind lvl (JObject ((k, v) # kvs)) @ rest)
      = map_option ((#) LBrace) (map_option ((#) (TString k)) (map_option ((#) Colon)
          (lexer (iterencode ea ind (lvl + 1) v
          @ (concat (map (\<lambda>(k', v'). item_separator ind @ newline_indent ind (lvl + 1)
                          @ encode_basestring ea k' @ '': '' @ iterencode ea ind (lvl + 1) v') kvs)
             @ newline_indent ind lvl @ ''}'' @ rest)))))"
    unfolding iterencode_object_Cons
    using lexer_key_separator
    by (simp add: punctuation_def is_json_space_def lexer_newline_indent lexer_encode_basestring)
  also have "\<dots> = map_option ((#) LBrace) (map_option ((#) (TString k)) (map_option ((#) Colon)
      (map_option ((@) (tokens v)) (map_option ((@) (members_tokens kvs)) (lexer rest)))))"
    unfolding "5.IH"(1) "5.IH"(2) ..
  finally show ?case by (cases "lexer rest") simp_all
next
  case 6
  show ?case
    by (cases "lexer rest") (simp_all add: punctuation_def is_json_space_def lexer_newline_indent)
next
  case (7 x xs)
  have "lexer (concat (map (\<lambda>y. item_separator ind @ newline_indent ind (lvl + 1)
                          @ iterencode ea ind (lvl + 1) y) (x # xs))
            @ newline_indent ind lvl @ '']'' @ rest)
      = map_option ((#) Comma) (lexer (iterencode ea ind (lvl + 1) x
          @ (concat (map (\<lambda>y. item_separator ind @ newline_indent ind (lvl + 1)
                          @ iterencode ea ind (lvl + 1) y) xs)
             @ newline_indent ind lvl @ '']'' @ rest)))"
    by (simp add: lexer_item_separator lexer_newline_indent)
  also have "\<dots> = map_option ((#) Comma)
      (map_option ((@) (tokens x)) (map_option ((@) (elements_tokens xs)) (lexer rest)))"
    unfolding "7.IH"(1) "7.IH"(2) ..
  finally show ?case by (cases "lexer rest") simp_all
next
  case 8
  show ?case
    by (cases "lexer rest") (simp_all add: punctuation_def is_json_space_def lexer_newline_indent)
next
  case (9 k v kvs)
  have "lexer (concat (map (\<lambda>(k', v'). item_separator ind @ newline_indent ind (lvl + 1)
                          @ encode_basestring ea k' @ '': '' @ iterencode ea ind (lvl + 1) v')
                       ((k, v) # kvs))
            @ newline_indent ind lvl @ ''}'' @ rest)
      = map_option ((#) Comma) (map_option ((#) (TString k)) (map_option ((#) Colon)
          (lexer (iterencode ea ind (lvl + 1) v
          @ (concat (map (\<lambda>(k', v'). item_separator ind @ newline_indent ind (lvl + 1)
                          @ encode_basestring ea k' @ '': '' @ iterencode ea ind (lvl + 1) v') kvs)
             @ newline_indent ind lvl @ ''}'' @ rest)))))"
    using lexer_key_separator
    by (simp add: lexer_item_separator lexer_newline_indent lexer_encode_basestring)
  also have "\<dots> = map_option ((#) Comma) (map_option ((#) (TString k)) (map_option ((#) Colon)
      (map_option ((@) (tokens v)) (map_option ((@) (members_tokens kvs)) (lexer rest)))))"
    unfolding "9.IH"(1) "9.IH"(2) ..
  finally show ?case by (cases "lexer rest") simp_all
qed

lemma json_loads_iterencode: "json_loads (iterencode ea ind lvl v) = Some v"
proof -
  have "lexer (iterencode ea ind lvl v @ []) = Some (tokens v)"
    unfolding lexer_iterencode(1) by simp
  moreover have "parse_value (Suc (length (tokens v))) (tokens v @ []) = Some (v, [])"
    by (rule parse_tokens(1)) simp
  ultimately show ?thesis by (simp add: json_loads_def)
qed

section \<open>The loops as filters\<close>

lemma tools_loop_filter:
  "tools_loop cls ms acc =
     acc @ map (\<lambda>(name, method). tool_entry cls name method)
       (filter (\<lambda>(name, method). \<not> str_startswith name ''_'' \<and> name \<noteq> ''generate_tools_json_doc''
                  \<and> hasattr_kernel_function method) ms)"
  by (induction cls ms acc rule: tools_loop.induct) auto

lemma dict_set_fresh: "k \<notin> fst ` set d \<Longrightarrow> dict_set d k v = d @ [(k, v)]"
  by (induction d) auto

lemma set_dict_set_keys: "fst ` set (dict_set d k v) = insert k (fst ` set d)"
proof (induction d)
  case Nil
  show ?case by simp
next
  case (Cons p d)
  obtain k' v' where p: "p = (k', v')" by (cases p)
  show ?case
  proof (cases "k' = k")
    case True
    then show ?thesis using p by simp
  next
    case False
    then show ?thesis using p Cons.IH by (simp add: insert_commute)
  qed
qed

lemma distinct_dict_set: "distinct (map fst d) \<Longrightarrow> distinct (map fst (dict_set d k v))"
  by (induction d) (auto simp: set_dict_set_keys)

lemma kernel_functions_loop_filter:
  "distinct (map fst ms) \<Longrightarrow> fst ` set acc \<inter> fst ` set ms = {} \<Longrightarrow>
   kernel_functions_loop ms acc =
     acc @ filter (\<lambda>(name, method). \<not> str_startswith name ''_'' \<and> name \<noteq> ''get_all_kernel_functions''
                  \<and> (hasattr_kernel_function method
                       \<or> str_contains ''kernel_function'' (str_dict (dunder_annotations method)))) ms"
proof (induction ms acc rule: kernel_functions_loop.induct)
  case (1 kernel_functions)
  show ?case by simp
next
  case (2 name f rest kernel_functions)
  have fresh: "name \<notin> fst ` set kernel_functions" using "2.prems" by auto
  have d: "distinct (map fst rest)" and n: "name \<notin> fst ` set rest" using "2.prems" by auto
  have disj: "fst ` set kernel_functions \<inter> fst ` set rest = {}" using "2.prems" by auto
  have disj': "fst ` set (kernel_functions @ [(name, f)]) \<inter> fst ` set rest = {}"
    using disj n by auto
  show ?case
    using "2.IH"(1) [OF _ d disj] "2.IH"(2) [OF _ refl _ d] "2.IH"(3) [OF _ refl _ d disj] disj'
    by (auto simp: dict_set_fresh [OF fresh] Let_def)
qed

lemma args_loop_keys:
  "fst ` set (args_loop hints ps d) = fst ` set d \<union> (set ps - {''cls'', ''self''})"
  by (induction hints ps d rule: args_loop.induct) (auto simp: set_dict_set_keys)

lemma args_loop_distinct:
  "distinct (map fst d) \<Longrightarrow> distinct (map fst (args_loop hints ps d))"
  by (induction hints ps d rule: args_loop.induct) (auto simp: distinct_dict_set)

lemma getmembers_DocumentTools:
  "getmembers (DocumentTools marker hr) isfunction =
     [(''read_document_contents'',
         kernel_function marker
           ''Read contents of the data provided, extract tables and return them on HTML format.''
           def_read_document_contents),
      (''save_to_excel'',
         kernel_function marker ''Save the extracted HTML tables to an Excel file.'' def_save_to_excel)]"
  by (simp add: getmembers_def DocumentTools_def isfunction_def object_attribute_names_def
      class_attribute_def staticmethod_def classmethod_def kernel_function_def
      def_read_document_contents_def def_save_to_excel_def def_get_all_kernel_functions_def
      def_generate_tools_json_doc_def)

lemma getmembers_filter:
  "filter P (getmembers cls isfunction)
     = filter (\<lambda>(name, method). isfunction method \<and> P (name, method)) (sort_key fst (members cls))"
  by (simp add: getmembers_def filter_sort [symmetric] case_prod_unfold conj_commute)

lemma distinct_getmembers:
  "distinct (map fst (members cls)) \<Longrightarrow> distinct (map fst (getmembers cls predicate))"
proof -
  assume d: "distinct (map fst (members cls))"
  let ?xs = "filter (\<lambda>(name, obj). predicate obj) (members cls)"
  have "distinct (map fst ?xs)" using d by (rule distinct_map_filter)
  then have "distinct ?xs \<and> inj_on fst (set ?xs)" by (simp add: distinct_map)
  then have "distinct (sort_key fst ?xs) \<and> inj_on fst (set (sort_key fst ?xs))" by simp
  then show ?thesis unfolding getmembers_def by (simp add: distinct_map)
qed


lemma tools_list_of_filter:
  "tools_list_of cls =
     map (\<lambda>(name, method). tool_entry cls name method)
       (filter (\<lambda>(name, method). isfunction method \<and> hasattr_kernel_function method
                  \<and> \<not> str_startswith name ''_'' \<and> name \<noteq> ''generate_tools_json_doc'')
          (sort_key fst (members cls)))"
proof -
  have "tools_list_of cls =
     map (\<lambda>(name, method). tool_entry cls name method)
       (filter (\<lambda>(name, method). \<not> str_startswith name ''_'' \<and> name \<noteq> ''generate_tools_json_doc''
                  \<and> hasattr_kernel_function method) (getmembers cls isfunction))"
    by (simp add: tools_list_of_def tools_loop_filter)
  also have "filter (\<lambda>(name, method). \<not> str_startswith name ''_'' \<and> name \<noteq> ''generate_tools_json_doc''
                  \<and> hasattr_kernel_function method) (getmembers cls isfunction)
      = filter (\<lambda>(name, method). isfunction method \<and> hasattr_kernel_function method
                  \<and> \<not> str_startswith name ''_'' \<and> name \<noteq> ''generate_tools_json_doc'')
          (sort_key fst (members cls))"
    unfolding getmembers_filter by (rule filter_cong) auto
  finally show ?thesis .
qed

lemma json_loads_manifest:
  "json_loads (generate_tools_json_doc cls) = Some (JArray (tools_list_of cls))"
  unfolding generate_tools_json_doc_def json_dumps_indent2_def by (rule json_loads_iterencode)

lemma tools_list_of_DocumentTools:
  "tools_list_of (DocumentTools marker hr) =
     [tool_entry (DocumentTools marker hr) ''read_document_contents''
        (kernel_function marker
           ''Read contents of the data provided, extract tables and return them on HTML format.''
           def_read_document_contents),
      tool_entry (DocumentTools marker hr) ''save_to_excel''
        (kernel_function marker ''Save the extracted HTML tables to an Excel file.'' def_save_to_excel)]"
  by (simp add: tools_list_of_def getmembers_DocumentTools str_startswith_def
      hasattr_kernel_function_def kernel_function_def)


section \<open>The manifest\<close>

lemma tool_entry_fields:
  "json_get (tool_entry cls name method) ''agent'' = Some (JString (agent_name cls))"
  "json_get (tool_entry cls name method) ''function'' = Some (JString name)"
  "json_get (tool_entry cls name method) ''description'' = Some (JString (tool_description method))"
  "json_get (tool_entry cls name method) ''arguments'' =
     Some (JString (str_replace (CHR 0x22) (CHR 0x27) (json_dumps (JObject (args_dict_of method)))))"
  by (simp_all add: json_get_def tool_entry_def)

lemma args_dict_of_keys:
  "set (map fst (args_dict_of method)) = set (parameters method) - {''cls'', ''self''}"
  "distinct (map fst (args_dict_of method))"
  using args_loop_keys [of "get_type_hints method" "parameters method" "[]"]
    args_loop_distinct [of "[]" "get_type_hints method" "parameters method"]
  by (simp_all add: args_dict_of_def)

text \<open>
  Claim C1: the manifest has one entry for each plain function of the class that
  carries \<^verbatim>\<open>__kernel_function__\<close> and whose name neither starts with an underscore
  nor is \<^verbatim>\<open>generate_tools_json_doc\<close>, in the order of their names; the keys of
  an entry's arguments are the parameters of the function other than \<^verbatim>\<open>cls\<close> and
  \<^verbatim>\<open>self\<close>.  For \<^verbatim>\<open>DocumentTools\<close> the entries are those of
  \<^verbatim>\<open>read_document_contents\<close>, with the key \<^verbatim>\<open>document\<close>, and of
  \<^verbatim>\<open>save_to_excel\<close>, with the key \<^verbatim>\<open>html_content\<close>.
\<close>

theorem manifest_lists_annotated_methods:
  "json_loads (generate_tools_json_doc cls) = Some (JArray (tools_list_of cls)) \<and>
   tools_list_of cls =
     map (\<lambda>(name, method). tool_entry cls name method)
       (filter (\<lambda>(name, method). isfunction method \<and> hasattr_kernel_function method
                  \<and> \<not> str_startswith name ''_'' \<and> name \<noteq> ''generate_tools_json_doc'')
          (sort_key fst (members cls))) \<and>
   json_get (tool_entry cls name method) ''function'' = Some (JString name) \<and>
   json_get (tool_entry cls name method) ''arguments'' =
     Some (JString (str_replace (CHR 0x22) (CHR 0x27) (json_dumps (JObject (args_dict_of method))))) \<and>
   set (map fst (args_dict_of method)) = set (parameters method) - {''cls'', ''self''} \<and>
   distinct (map fst (args_dict_of method)) \<and>
   map (\<lambda>entry. json_get entry ''function'') (tools_list_of (DocumentTools marker hr)) =
     [Some (JString ''read_document_contents''), Some (JString ''save_to_excel'')] \<and>
   map fst (args_dict_of (kernel_function marker d def_read_document_contents)) = [''document''] \<and>
   map fst (args_dict_of (kernel_function marker d def_save_to_excel)) = [''html_content'']"
proof -
  have "map fst (args_dict_of (kernel_function marker d def_read_document_contents)) = [''document'']"
    by (simp add: args_dict_of_def kernel_function_def def_read_document_contents_def get_type_hints_def)
  moreover have "map fst (args_dict_of (kernel_function marker d def_save_to_excel)) = [''html_content'']"
    by (simp add: args_dict_of_def kernel_function_def def_save_to_excel_def get_type_hints_def)
  moreover have "map (\<lambda>entry. json_get entry ''function'') (tools_list_of (DocumentTools marker hr)) =
     [Some (JString ''read_document_contents''), Some (JString ''save_to_excel'')]"
    by (simp add: tools_list_of_DocumentTools tool_entry_fields)
  ultimately show ?thesis
    using tools_list_of_filter [of cls] tool_entry_fields(2,4) [of cls name "method"]
      args_dict_of_keys [of "method"] json_loads_manifest [of cls]
    by simp
qed

theorem manifest_lists_annotated_methods_witness:
  "map (\<lambda>entry. json_get entry ''function'') (tools_list_of DescribingTools) =
     [Some (JString ''read_document_contents''), Some (JString ''save_to_excel'')] \<and>
   map fst (filter (\<lambda>(name, method). isfunction method) (members DescribingTools)) =
     [''read_document_contents'', ''save_to_excel'', ''describe'']"
proof -
  have "map (\<lambda>entry. json_get entry ''function'') (tools_list_of DescribingTools) =
     map (\<lambda>entry. json_get entry ''function'')
      (map (\<lambda>(name, method). tool_entry DescribingTools name method)
       (filter (\<lambda>(name, method). isfunction method \<and> hasattr_kernel_function method
                  \<and> \<not> str_startswith name ''_'' \<and> name \<noteq> ''generate_tools_json_doc'')
          (sort_key fst (members DescribingTools))))"
    using manifest_lists_annotated_methods [of DescribingTools] by simp
  then show ?thesis
    by (simp add: DescribingTools_def DocumentTools_def isfunction_def object_attribute_names_def
      class_attribute_def staticmethod_def classmethod_def kernel_function_def
      def_read_document_contents_def def_save_to_excel_def def_get_all_kernel_functions_def
      def_generate_tools_json_doc_def def_describe_def hasattr_kernel_function_def
      str_startswith_def flag_marker_def tool_entry_fields Let_def)
qed

text \<open>
  Claim C8: every entry of the manifest has the value of \<^verbatim>\<open>cls.agent_name\<close> in its
  field \<^verbatim>\<open>agent\<close>, whichever method the entry describes; for
  \<^verbatim>\<open>DocumentTools\<close> that value is \<^verbatim>\<open>AgentType.HR.value\<close>.
\<close>

theorem manifest_agent_is_agent_name:
  "json_loads (generate_tools_json_doc cls) = Some (JArray (tools_list_of cls)) \<and>
   (\<forall>entry \<in> set (tools_list_of cls). json_get entry ''agent'' = Some (JString (agent_name cls))) \<and>
   agent_name (DocumentTools marker hr) = hr"
proof -
  have "\<forall>entry \<in> set (tools_list_of cls). json_get entry ''agent'' = Some (JString (agent_name cls))"
    unfolding tools_list_of_filter by (auto simp: tool_entry_fields)
  moreover have "agent_name (DocumentTools marker hr) = hr" by (simp add: DocumentTools_def)
  ultimately show ?thesis using json_loads_manifest [of cls] by simp
qed

theorem manifest_agent_is_agent_name_witness:
  "map (\<lambda>entry. json_get entry ''agent'') (tools_list_of (DocumentTools flag_marker ''Hr_Agent''))
     = [Some (JString ''Hr_Agent''), Some (JString ''Hr_Agent'')]"
proof -
  let ?cls = "DocumentTools flag_marker ''Hr_Agent''"
  have "\<forall>entry \<in> set (tools_list_of ?cls). json_get entry ''agent'' = Some (JString (agent_name ?cls))"
    using manifest_agent_is_agent_name [of ?cls flag_marker "''Hr_Agent''"] by blast
  moreover have "agent_name ?cls = ''Hr_Agent''"
    using manifest_agent_is_agent_name [of ?cls flag_marker "''Hr_Agent''"] by blast
  moreover have "length (tools_list_of ?cls) = 2" by (simp add: tools_list_of_DocumentTools)
  ultimately show ?thesis
    by (simp add: tools_list_of_DocumentTools)
qed






section \<open>The dictionary of kernel functions\<close>

lemma get_all_kernel_functions_filter:
  assumes "distinct (map fst (members cls))"
  shows "get_all_kernel_functions cls =
     filter (\<lambda>(name, method). isfunction method \<and> \<not> str_startswith name ''_''
                \<and> name \<noteq> ''get_all_kernel_functions''
                \<and> (hasattr_kernel_function method
                     \<or> str_contains ''kernel_function'' (str_dict (dunder_annotations method))))
       (sort_key fst (members cls))"
proof -
  have "distinct (map fst (getmembers cls isfunction))"
    using assms by (rule distinct_getmembers)
  then have "get_all_kernel_functions cls =
      filter (\<lambda>(name, method). \<not> str_startswith name ''_'' \<and> name \<noteq> ''get_all_kernel_functions''
                  \<and> (hasattr_kernel_function method
                       \<or> str_contains ''kernel_function'' (str_dict (dunder_annotations method))))
        (getmembers cls isfunction)"
    unfolding get_all_kernel_functions_def
    by (subst kernel_functions_loop_filter) simp_all
  also have "\<dots> = filter (\<lambda>(name, method). isfunction method \<and> \<not> str_startswith name ''_''
                \<and> name \<noteq> ''get_all_kernel_functions''
                \<and> (hasattr_kernel_function method
                     \<or> str_contains ''kernel_function'' (str_dict (dunder_annotations method))))
       (sort_key fst (members cls))"
    unfolding getmembers_filter by (rule filter_cong) auto
  finally show ?thesis .
qed

lemma get_all_kernel_functions_DocumentTools:
  "get_all_kernel_functions (DocumentTools marker hr) =
     [(''read_document_contents'',
         kernel_function marker
           ''Read contents of the data provided, extract tables and return them on HTML format.''
           def_read_document_contents),
      (''save_to_excel'',
         kernel_function marker ''Save the extracted HTML tables to an Excel file.'' def_save_to_excel)]"
  by (simp add: get_all_kernel_functions_def getmembers_DocumentTools str_startswith_def
      hasattr_kernel_function_def kernel_function_def)

lemma members_DescribingTools:
  "distinct (map fst (members DescribingTools))"
  "map_of (members DescribingTools) ''describe'' = Some def_describe"
  by (simp_all add: DescribingTools_def DocumentTools_def object_attribute_names_def Let_def
      staticmethod_def)

lemma getmembers_DescribingTools:
  "getmembers DescribingTools isfunction =
     [(''describe'', def_describe),
      (''read_document_contents'',
         kernel_function flag_marker
           ''Read contents of the data provided, extract tables and return them on HTML format.''
           def_read_document_contents),
      (''save_to_excel'',
         kernel_function flag_marker ''Save the extracted HTML tables to an Excel file.'' def_save_to_excel)]"
  by (simp add: getmembers_def DescribingTools_def DocumentTools_def isfunction_def object_attribute_names_def
      class_attribute_def staticmethod_def classmethod_def kernel_function_def
      def_read_document_contents_def def_save_to_excel_def def_get_all_kernel_functions_def
      def_generate_tools_json_doc_def def_describe_def Let_def)

lemma describe_annotations:
  "str_contains ''kernel_function'' (str_dict (dunder_annotations def_describe))"
  by (simp add: def_describe_def str_dict_def str_class_def str_startswith_def)

lemma keys_DescribingTools:
  "map fst (get_all_kernel_functions DescribingTools) =
     [''describe'', ''read_document_contents'', ''save_to_excel'']"
  by (simp add: get_all_kernel_functions_def getmembers_DescribingTools str_startswith_def
      hasattr_kernel_function_def kernel_function_def describe_annotations)

lemma functions_of_DescribingTools:
  "map (\<lambda>entry. json_get entry ''function'') (tools_list_of DescribingTools) =
     [Some (JString ''read_document_contents''), Some (JString ''save_to_excel'')]"
  by (simp add: tools_list_of_def getmembers_DescribingTools str_startswith_def
      hasattr_kernel_function_def kernel_function_def def_describe_def tool_entry_fields)

text \<open>
  Claim C4 says that the keys of \<^verbatim>\<open>get_all_kernel_functions\<close> are exactly the
  names of the methods decorated with \<^verbatim>\<open>kernel_function\<close>, as its docstring does
  (lines 66-68).  In the subclass \<open>DescribingTools\<close> the static method
  \<^verbatim>\<open>describe\<close> is not decorated, and its name is a key: the text of its annotations
  contains \<^verbatim>\<open>kernel_function\<close>, in the name of a parameter (lines 83-86).  The
  manifest of \<^verbatim>\<open>generate_tools_json_doc\<close>, which tests the attribute alone (line
  109), leaves \<^verbatim>\<open>describe\<close> out.
\<close>

theorem kernel_functions_unmarked_key:
  "map fst (get_all_kernel_functions DescribingTools) =
     [''describe'', ''read_document_contents'', ''save_to_excel''] \<and>
   map_of (members DescribingTools) ''describe'' = Some def_describe \<and>
   dunder_kernel_function def_describe = None \<and>
   map (\<lambda>entry. json_get entry ''function'') (tools_list_of DescribingTools) =
     [Some (JString ''read_document_contents''), Some (JString ''save_to_excel'')]"
  by (simp add: keys_DescribingTools members_DescribingTools def_describe_def
      functions_of_DescribingTools)

lemma set_dict_set_subset: "set (dict_set d k v) \<subseteq> insert (k, v) (set d)"
proof (induction d)
  case Nil
  show ?case by simp
next
  case (Cons p d)
  obtain k' v' where p: "p = (k', v')" by (cases p)
  show ?case
  proof (cases "k' = k")
    case True
    then show ?thesis using p by auto
  next
    case False
    then show ?thesis using p Cons.IH by auto
  qed
qed

lemma args_loop_invariant:
  assumes "\<forall>(p, v) \<in> set d. shape p v"
    and "\<And>p. shape p (JObject [(''description'', JString p),
                     (''title'', JString (str_title (str_replace CHR ''_'' CHR '' '' p))),
                     (''type'', JString (param_type hints p))])"
  shows "\<forall>(p, v) \<in> set (args_loop hints ps d). shape p v"
  using assms(1)
proof (induction ps arbitrary: d)
  case Nil
  then show ?case by simp
next
  case (Cons param_name rest)
  let ?v = "JObject [(''description'', JString param_name),
                     (''title'', JString (str_title (str_replace CHR ''_'' CHR '' '' param_name))),
                     (''type'', JString (param_type hints param_name))]"
  have new: "\<forall>(p, v) \<in> set (dict_set d param_name ?v). shape p v"
  proof (clarify)
    fix p v
    assume "(p, v) \<in> set (dict_set d param_name ?v)"
    then have "(p, v) = (param_name, ?v) \<or> (p, v) \<in> set d"
      using set_dict_set_subset [of d param_name ?v] by blast
    then show "shape p v"
    proof
      assume "(p, v) = (param_name, ?v)"
      then show ?thesis using assms(2) [of param_name] by simp
    next
      assume "(p, v) \<in> set d"
      then show ?thesis using Cons.prems by blast
    qed
  qed
  show ?case
  proof (cases "param_name \<in> set [''cls'', ''self'']")
    case True
    then show ?thesis using Cons.IH [OF Cons.prems] by simp
  next
    case False
    then show ?thesis using Cons.IH [OF new] by simp
  qed
qed

lemma args_dict_of_shape:
  "\<forall>(p, v) \<in> set (args_dict_of method). \<exists>title ty.
      v = JObject [(''description'', JString p), (''title'', JString title), (''type'', JString ty)]"
  unfolding args_dict_of_def
  by (rule args_loop_invariant) simp_all

lemma json_loads_json_dumps: "json_loads (json_dumps v) = Some v"
  unfolding json_dumps_def by (rule json_loads_iterencode)

text \<open>
  Claim C2: the text returned by \<^verbatim>\<open>generate_tools_json_doc\<close> is read as a JSON
  array.  Each of its elements is an object with the four fields \<^verbatim>\<open>agent\<close>,
  \<^verbatim>\<open>function\<close>, \<^verbatim>\<open>description\<close> and \<^verbatim>\<open>arguments\<close>, in this order, all
  strings.  The last is the JSON text of a mapping, with single quotes put for the
  double ones, and the mapping takes each parameter name to an object with the
  fields \<^verbatim>\<open>description\<close>, \<^verbatim>\<open>title\<close> and \<^verbatim>\<open>type\<close>.
\<close>

theorem manifest_is_json_array_of_entries:
  "json_loads (generate_tools_json_doc cls) = Some (JArray (tools_list_of cls)) \<and>
   (\<forall>entry \<in> set (tools_list_of cls). \<exists>agent fname description mapping.
       entry = JObject [(''agent'', JString agent), (''function'', JString fname),
                        (''description'', JString description),
                        (''arguments'',
                           JString (str_replace (CHR 0x22) (CHR 0x27) (json_dumps (JObject mapping))))] \<and>
       json_loads (json_dumps (JObject mapping)) = Some (JObject mapping) \<and>
       (\<forall>(param_name, v) \<in> set mapping. \<exists>title ty.
           v = JObject [(''description'', JString param_name), (''title'', JString title),
                        (''type'', JString ty)]))"
proof (intro conjI ballI)
  show "json_loads (generate_tools_json_doc cls) = Some (JArray (tools_list_of cls))"
    by (rule json_loads_manifest)
next
  fix entry
  assume "entry \<in> set (tools_list_of cls)"
  then obtain name f where e: "entry = tool_entry cls name f"
    unfolding tools_list_of_filter by auto
  show "\<exists>agent fname description mapping.
       entry = JObject [(''agent'', JString agent), (''function'', JString fname),
                        (''description'', JString description),
                        (''arguments'',
                           JString (str_replace (CHR 0x22) (CHR 0x27) (json_dumps (JObject mapping))))] \<and>
       json_loads (json_dumps (JObject mapping)) = Some (JObject mapping) \<and>
       (\<forall>(param_name, v) \<in> set mapping. \<exists>title ty.
           v = JObject [(''description'', JString param_name), (''title'', JString title),
                        (''type'', JString ty)])"
  proof (intro exI conjI)
    show "entry = JObject [(''agent'', JString (agent_name cls)), (''function'', JString name),
                        (''description'', JString (tool_description f)),
                        (''arguments'',
                           JString (str_replace (CHR 0x22) (CHR 0x27)
                             (json_dumps (JObject (args_dict_of f)))))]"
      unfolding e tool_entry_def ..
    show "json_loads (json_dumps (JObject (args_dict_of f))) = Some (JObject (args_dict_of f))"
      by (rule json_loads_json_dumps)
    show "\<forall>(param_name, v) \<in> set (args_dict_of f). \<exists>title ty.
           v = JObject [(''description'', JString param_name), (''title'', JString title),
                        (''type'', JString ty)]"
      by (rule args_dict_of_shape)
  qed
qed

lemma args_dict_of_kernel_function:
  "args_dict_of (kernel_function marker d f) = args_dict_of f"
  by (simp add: args_dict_of_def kernel_function_def get_type_hints_def)

lemma args_dict_of_read_document_contents:
  "args_dict_of def_read_document_contents =
      [(''document'', JObject [(''description'', JString ''document''), (''title'', JString ''Document''),
          (''type'', JString ''bytes'')])]"
  by code_simp

lemma args_dict_of_save_to_excel:
  "args_dict_of def_save_to_excel =
      [(''html_content'', JObject [(''description'', JString ''html_content''),
          (''title'', JString ''Html Content''), (''type'', JString ''str'')])]"
  by code_simp

lemma arguments_read_document_contents:
  "str_replace (CHR 0x22) (CHR 0x27) (json_dumps (JObject (args_dict_of def_read_document_contents)))
     = ''{'document': {'description': 'document', 'title': 'Document', 'type': 'bytes'}}''"
  unfolding args_dict_of_read_document_contents
  by (simp add: json_dumps_def encode_basestring_def escape_char_def str_replace_def
      newline_indent_def item_separator_def)

lemma arguments_save_to_excel:
  "str_replace (CHR 0x22) (CHR 0x27) (json_dumps (JObject (args_dict_of def_save_to_excel)))
     = ''{'html_content': {'description': 'html_content', 'title': 'Html Content', 'type': 'str'}}''"
  unfolding args_dict_of_save_to_excel
  by (simp add: json_dumps_def encode_basestring_def escape_char_def str_replace_def
      newline_indent_def item_separator_def)

lemma str_strip_save_to_excel_doc:
  "str_strip save_to_excel_doc =
           ''Converts HTML tables in the provided HTML content to an Exce'' @
           ''l file.'' @
           [CHR ''\<newline>''] @
           ''        '' @
           [CHR ''\<newline>''] @
           ''        Args:'' @
           [CHR ''\<newline>''] @
           ''            html_content (str): The HTML content containing '' @
           ''tables.'' @
           [CHR ''\<newline>''] @
           ''        '' @
           [CHR ''\<newline>''] @
           ''        Returns:'' @
           [CHR ''\<newline>''] @
           ''            bytes: The function saves the Excel file as '' @
           [CHR 0x27] @
           ''output.xlsx'' @
           [CHR 0x27] @
           ''.''"
  by code_simp

lemma tool_description_flag_marker:
  "tool_description (kernel_function flag_marker d f)
     = (case dunder_doc f of None \<Rightarrow> [] | Some doc \<Rightarrow> str_strip doc)"
  by (simp add: tool_description_def kernel_function_def flag_marker_def str_strip_Nil
      split: option.splits)

theorem manifest_is_json_array_of_entries_witness:
  "json_loads (generate_tools_json_doc (DocumentTools flag_marker ''Hr_Agent'')) =
     Some (JArray
       [JObject [(''agent'', JString ''Hr_Agent''),
                 (''function'', JString ''read_document_contents''),
                 (''description'', JString []),
                 (''arguments'', JString
                    ''{'document': {'description': 'document', 'title': 'Document', 'type': 'bytes'}}'')],
        JObject [(''agent'', JString ''Hr_Agent''),
                 (''function'', JString ''save_to_excel''),
                 (''description'', JString
          (''Converts HTML tables in the provided HTML content to an Exce'' @
           ''l file.'' @
           [CHR ''\<newline>''] @
           ''        '' @
           [CHR ''\<newline>''] @
           ''        Args:'' @
           [CHR ''\<newline>''] @
           ''            html_content (str): The HTML content containing '' @
           ''tables.'' @
           [CHR ''\<newline>''] @
           ''        '' @
           [CHR ''\<newline>''] @
           ''        Returns:'' @
           [CHR ''\<newline>''] @
           ''            bytes: The function saves the Excel file as '' @
           [CHR 0x27] @
           ''output.xlsx'' @
           [CHR 0x27] @
           ''.'')),
                 (''arguments'', JString
                    ''{'html_content': {'description': 'html_content', 'title': 'Html Content', 'type': 'str'}}'')]])"
proof -
  let ?cls = "DocumentTools flag_marker ''Hr_Agent''"
  have "json_loads (generate_tools_json_doc ?cls) = Some (JArray (tools_list_of ?cls))"
    using manifest_is_json_array_of_entries [of ?cls] by (rule conjunct1)
  moreover have "agent_name ?cls = ''Hr_Agent''" by (simp add: DocumentTools_def)
  moreover have "dunder_doc def_read_document_contents = None"
    by (simp add: def_read_document_contents_def)
  moreover have "dunder_doc def_save_to_excel = Some save_to_excel_doc"
    by (simp add: def_save_to_excel_def)
  ultimately show ?thesis
    by (simp add: tools_list_of_DocumentTools tool_entry_def args_dict_of_kernel_function
        arguments_read_document_contents arguments_save_to_excel tool_description_flag_marker
        str_strip_save_to_excel_doc)
qed

text \<open>
  Claim C9 says that the description of the decorator wins over the docstring.
  \<^verbatim>\<open>save_to_excel\<close> has a docstring and is decorated with a description.  The
  decorator stores \<^verbatim>\<open>True\<close>, so lines 116-119 find no description, and the entry
  of \<^verbatim>\<open>save_to_excel\<close> has the stripped docstring; \<^verbatim>\<open>read_document_contents\<close>,
  which has no docstring, gets the empty description.
\<close>

theorem decorated_description_is_docstring:
  "dunder_doc (kernel_function flag_marker ''Save the extracted HTML tables to an Excel file.''
      def_save_to_excel) = Some save_to_excel_doc \<and>
   map (\<lambda>entry. json_get entry ''function'') (tools_list_of (DocumentTools flag_marker ''Hr_Agent''))
     = [Some (JString ''read_document_contents''), Some (JString ''save_to_excel'')] \<and>
   map (\<lambda>entry. json_get entry ''description'') (tools_list_of (DocumentTools flag_marker ''Hr_Agent''))
     = [Some (JString []),
        Some (JString
          (''Converts HTML tables in the provided HTML content to an Exce'' @
           ''l file.'' @
           [CHR ''\<newline>''] @
           ''        '' @
           [CHR ''\<newline>''] @
           ''        Args:'' @
           [CHR ''\<newline>''] @
           ''            html_content (str): The HTML content containing '' @
           ''tables.'' @
           [CHR ''\<newline>''] @
           ''        '' @
           [CHR ''\<newline>''] @
           ''        Returns:'' @
           [CHR ''\<newline>''] @
           ''            bytes: The function saves the Excel file as '' @
           [CHR 0x27] @
           ''output.xlsx'' @
           [CHR 0x27] @
           ''.''))]"
proof -
  have none: "dunder_doc def_read_document_contents = None"
    by (simp add: def_read_document_contents_def)
  have some: "dunder_doc def_save_to_excel = Some save_to_excel_doc"
    by (simp add: def_save_to_excel_def)
  have "dunder_doc (kernel_function flag_marker ''Save the extracted HTML tables to an Excel file.''
      def_save_to_excel) = Some save_to_excel_doc"
    by (simp add: kernel_function_def def_save_to_excel_def)
  moreover have "map (\<lambda>entry. json_get entry ''function'')
      (tools_list_of (DocumentTools flag_marker ''Hr_Agent''))
     = [Some (JString ''read_document_contents''), Some (JString ''save_to_excel'')]"
    by (simp add: tools_list_of_DocumentTools tool_entry_fields)
  moreover have "map (\<lambda>entry. json_get entry ''description'')
      (tools_list_of (DocumentTools flag_marker ''Hr_Agent''))
     = [Some (JString []), Some (JString (str_strip save_to_excel_doc))]"
    by (simp add: tools_list_of_DocumentTools tool_entry_fields tool_description_flag_marker
        none some)
  ultimately show ?thesis
    unfolding str_strip_save_to_excel_doc by (intro conjI)
qed

section \<open>Properties of save_to_excel\<close>


lemma tables_loop_path:
  "tables_loop L i tables w = Inr w' \<Longrightarrow> writer_path w' = writer_path w"
proof (induction tables arbitrary: i w)
  case Nil
  then show ?case by simp
next
  case (Cons t ts)
  from Cons.prems obtain book where
    2: "tables_loop L (i + 1) ts (w\<lparr>writer_book := book\<rparr>) = Inr w'"
    by (auto split: sum.splits list.splits)
  show ?case using Cons.IH [OF 2] by simp
qed







lemma open_write_cases:
  "open_write fs path = (if fs path = Some Directory
     then Inl (Exception ''IsADirectoryError''
                 (''[Errno 21] Is a directory: '' @ [CHR 0x27] @ path @ [CHR 0x27]))
     else Inr (fs(path \<mapsto> File [])))"
  by (auto simp: open_write_def split: option.splits node.splits)

lemma save_to_excel_after_setup:
  assumes "BeautifulSoup L html ''html.parser'' = Inr soup"
    and "find_all L soup ''table'' = Inr tables"
    and "new_workbook L ''xlsxwriter'' = Inr book0"
    and "open_write fs ''output.xlsx'' = Inr fs1"
  shows "save_to_excel L html fs =
     (case tables_loop L 0 tables \<lparr>writer_path = ''output.xlsx'', writer_book = book0\<rparr> of
        Inl e \<Rightarrow> (Inl e, fs1)
      | Inr w \<Rightarrow>
          (case save_workbook L (writer_book w) of
             Inl e \<Rightarrow> (Inl e, fs1)
           | Inr data \<Rightarrow> (Inr data, fs1(''output.xlsx'' \<mapsto> File data))))"
proof (cases "tables_loop L 0 tables \<lparr>writer_path = ''output.xlsx'', writer_book = book0\<rparr>")
  case (Inl e)
  then show ?thesis using assms by (simp add: save_to_excel_def ExcelWriter_def)
next
  case (Inr w)
  have path: "writer_path w = ''output.xlsx''" using tables_loop_path [OF Inr] by simp
  show ?thesis
  proof (cases "save_workbook L (writer_book w)")
    case (Inl e)
    then show ?thesis using assms Inr
      by (simp add: save_to_excel_def ExcelWriter_def writer_close_def)
  next
    case data: (Inr data)
    have "open_read (fs1(''output.xlsx'' \<mapsto> File data)) ''output.xlsx'' = Inr data"
      by (simp add: open_read_def)
    then show ?thesis using assms Inr data path
      by (simp add: save_to_excel_def ExcelWriter_def writer_close_def)
  qed
qed

lemma save_to_excel_result:
  "save_to_excel L html fs =
     (case BeautifulSoup L html ''html.parser'' of
        Inl e \<Rightarrow> (Inl e, fs)
      | Inr soup \<Rightarrow>
     (case find_all L soup ''table'' of
        Inl e \<Rightarrow> (Inl e, fs)
      | Inr tables \<Rightarrow>
     (case new_workbook L ''xlsxwriter'' of
        Inl e \<Rightarrow> (Inl e, fs)
      | Inr book0 \<Rightarrow>
     (if fs ''output.xlsx'' = Some Directory
      then (Inl (Exception ''IsADirectoryError''
                   (''[Errno 21] Is a directory: '' @ [CHR 0x27] @ ''output.xlsx'' @ [CHR 0x27])), fs)
      else
     (case tables_loop L 0 tables \<lparr>writer_path = ''output.xlsx'', writer_book = book0\<rparr> of
        Inl e \<Rightarrow> (Inl e, fs(''output.xlsx'' \<mapsto> File []))
      | Inr w \<Rightarrow>
     (case save_workbook L (writer_book w) of
        Inl e \<Rightarrow> (Inl e, fs(''output.xlsx'' \<mapsto> File []))
      | Inr data \<Rightarrow> (Inr data, fs(''output.xlsx'' \<mapsto> File data))))))))"
proof (cases "BeautifulSoup L html ''html.parser''")
  case (Inl e)
  then show ?thesis by (simp add: save_to_excel_def)
next
  case soup: (Inr soup)
  show ?thesis
  proof (cases "find_all L soup ''table''")
    case (Inl e)
    then show ?thesis using soup by (simp add: save_to_excel_def)
  next
    case tables: (Inr tables)
    show ?thesis
    proof (cases "new_workbook L ''xlsxwriter''")
      case (Inl e)
      then show ?thesis using soup tables by (simp add: save_to_excel_def ExcelWriter_def)
    next
      case book0: (Inr book0)
      show ?thesis
      proof (cases "fs ''output.xlsx'' = Some Directory")
        case True
        then have "open_write fs ''output.xlsx'' = Inl (Exception ''IsADirectoryError''
                   (''[Errno 21] Is a directory: '' @ [CHR 0x27] @ ''output.xlsx'' @ [CHR 0x27]))"
          unfolding open_write_cases by simp
        then show ?thesis using soup tables book0 True
          by (simp add: save_to_excel_def ExcelWriter_def)
      next
        case False
        then have ow: "open_write fs ''output.xlsx'' = Inr (fs(''output.xlsx'' \<mapsto> File []))"
          unfolding open_write_cases by simp
        show ?thesis
          unfolding save_to_excel_after_setup [OF soup tables book0 ow]
          using soup tables book0 False by (simp split: sum.splits)
      qed
    qed
  qed
qed



lemma save_to_excel_frame:
  "p \<noteq> ''output.xlsx'' \<Longrightarrow> snd (save_to_excel L html fs) p = fs p"
  unfolding save_to_excel_result by (simp split: sum.splits)







text \<open>
  Claim C7, amended: a call of any of the four operations leaves every file other
  than \<^verbatim>\<open>output.xlsx\<close> as it was; the three operations other than
  \<^verbatim>\<open>save_to_excel\<close> leave the whole file system as it was, and what they return does
  not depend on it.
\<close>

theorem run_changes_only_output_xlsx:
  "(\<forall>p. p \<noteq> ''output.xlsx'' \<longrightarrow> snd (run L c fs) p = fs p) \<and>
   ((\<forall>html. c \<noteq> Call_save_to_excel html) \<longrightarrow>
      snd (run L c fs) = fs \<and> fst (run L c fs) = fst (run L c fs'))"
proof (cases c)
  case (Call_save_to_excel html)
  have "snd (run L c fs) = snd (save_to_excel L html fs)"
    using Call_save_to_excel by (simp split: prod.splits sum.splits)
  then show ?thesis using Call_save_to_excel save_to_excel_frame [of _ L html fs] by simp
qed simp_all

section \<open>The stand-in libraries at work\<close>



text \<open>
  Claim C7, as stated, says that no call changes any state outside its own values.
  A call of \<^verbatim>\<open>save_to_excel\<close> on the empty text, in a file system without files,
  leaves the file \<^verbatim>\<open>output.xlsx\<close> behind; a call that raises leaves it behind
  empty.
\<close>

theorem run_writes_output_xlsx:
  "(Map.empty :: filesystem) ''output.xlsx'' = None \<and>
   snd (run stand_in_libraries (Call_save_to_excel []) Map.empty) ''output.xlsx''
     = Some (File (map of_char ''PKSheet1'')) \<and>
   snd (run stand_in_libraries (Call_save_to_excel ''<table></table>'') Map.empty) ''output.xlsx''
     = Some (File [])"
  by code_simp

lemma run_on_directory:
  "fst (run stand_in_libraries (Call_save_to_excel []) [''output.xlsx'' \<mapsto> Directory])
     = Raised (Exception ''IsADirectoryError''
                (''[Errno 21] Is a directory: '' @ [CHR 0x27] @ ''output.xlsx'' @ [CHR 0x27]))"
  "fst (run stand_in_libraries (Call_save_to_excel []) Map.empty)
     = Returned_bytes (map of_char ''PKSheet1'')"
  by code_simp+






theorem run_changes_only_output_xlsx_witness:
  "snd (run stand_in_libraries (Call_save_to_excel []) [''notes.txt'' \<mapsto> File [1, 2, 3]]) ''notes.txt''
     = Some (File [1, 2, 3]) \<and>
   snd (run stand_in_libraries (Call_generate_tools_json_doc DescribingTools)
          [''notes.txt'' \<mapsto> File [1, 2, 3]]) = [''notes.txt'' \<mapsto> File [1, 2, 3]] \<and>
   fst (run stand_in_libraries (Call_get_all_kernel_functions DescribingTools)
          [''notes.txt'' \<mapsto> File [1, 2, 3]])
     = fst (run stand_in_libraries (Call_get_all_kernel_functions DescribingTools) Map.empty)"
proof -
  let ?fs = "[''notes.txt'' \<mapsto> File [1, 2, 3]]"
  note frame = run_changes_only_output_xlsx [where L = stand_in_libraries and fs = ?fs and fs' = Map.empty]
  have "snd (run stand_in_libraries (Call_save_to_excel []) ?fs) ''notes.txt'' = ?fs ''notes.txt''"
    by (rule frame [where c = "Call_save_to_excel []", THEN conjunct1, rule_format]) simp
  then have a: "snd (run stand_in_libraries (Call_save_to_excel []) ?fs) ''notes.txt''
      = Some (File [1, 2, 3])"
    by simp
  have b: "snd (run stand_in_libraries (Call_generate_tools_json_doc DescribingTools) ?fs) = ?fs"
    by (rule frame [where c = "Call_generate_tools_json_doc DescribingTools",
          THEN conjunct2, rule_format, THEN conjunct1]) simp
  have c: "fst (run stand_in_libraries (Call_get_all_kernel_functions DescribingTools) ?fs)
      = fst (run stand_in_libraries (Call_get_all_kernel_functions DescribingTools) Map.empty)"
    by (rule frame [where c = "Call_get_all_kernel_functions DescribingTools",
          THEN conjunct2, rule_format, THEN conjunct2]) simp
  show ?thesis using a b c by (intro conjI)
qed

end
